theory Spec2Isabelle
  imports Main
begin

section \<open>The tea shop service of afastapi.py\<close>

text \<open>
  The service keeps two tables (users and teas) in one SQLite file, issues HS256-signed
  bearer tokens at \<^verbatim>\<open>POST /token\<close> and guards the three mutating routes with the
  dependency \<^verbatim>\<open>get_current_user\<close>. The handlers are embedded as functions of the
  database, of the clock reading \<open>now\<close> (seconds since the epoch, the resolution of the
  \<^verbatim>\<open>exp\<close> claim) and of the request's arguments. A handler that writes returns the
  database it leaves behind; a raised exception is the \<open>Inl\<close> branch of the result.
\<close>

subsection \<open>Exceptions\<close>

text \<open>
  \<^verbatim>\<open>HTTPException(status_code, detail)\<close> of the framework, the two exception classes of
  the JWT library that \<^verbatim>\<open>get_current_user\<close> tells apart (the first is a subclass of the
  second in the library and is caught first), and the exceptions of the database driver (the
  engine cannot run a statement; an integer parameter does not fit SQLite's 64 bits) and of
  the signing back end, which the source only meets in \<^verbatim>\<open>except Exception\<close>.
\<close>

datatype exn =
    HTTPException int string
  | ExpiredSignatureError string
  | InvalidTokenError string
  | OperationalError string
  | OverflowError string
  | NotImplementedError string

subsection \<open>Decimal rendering of integers\<close>

text \<open>\<^verbatim>\<open>str(n)\<close> and the \<^verbatim>\<open>{n}\<close> of an f-string, for an integer \<open>n\<close>.\<close>

definition digit_char :: "nat \<Rightarrow> char" where
  "digit_char d = ''0123456789'' ! d"

fun str_nat :: "nat \<Rightarrow> string" where
  "str_nat n = (if n < 10 then [digit_char n] else str_nat (n div 10) @ [digit_char (n mod 10)])"

declare str_nat.simps [simp del]

definition str_int :: "int \<Rightarrow> string" where
  "str_int i = (if i < 0 then CHR ''-'' # str_nat (nat (- i)) else str_nat (nat i))"

text \<open>
  \<^verbatim>\<open>str(e)\<close> of an exception: the message it was raised with; for the framework's
  \<^verbatim>\<open>HTTPException\<close> the text \<^verbatim>\<open>"{status_code}: {detail}"\<close>.
\<close>

fun str_exn :: "exn \<Rightarrow> string" where
  "str_exn (HTTPException status_code detail) = str_int status_code @ '': '' @ detail"
| "str_exn (ExpiredSignatureError m) = m"
| "str_exn (InvalidTokenError m) = m"
| "str_exn (OperationalError m) = m"
| "str_exn (OverflowError m) = m"
| "str_exn (NotImplementedError m) = m"

subsection \<open>Tokens\<close>

text \<open>
  The payload dictionary, restricted to the two claims the program writes and reads:
  \<^verbatim>\<open>"sub"\<close> and \<^verbatim>\<open>"exp"\<close>, each present or absent.
\<close>

record claims =
  sub :: "string option"
  exp :: "int option"

text \<open>
  A bearer string is either a signed token (its header's algorithm, its payload and the key
  its signature was computed with) or any other text. The signature is symbolic: it verifies
  under a key exactly when it was computed with that key.
\<close>

datatype token =
    JWS string claims string
  | Opaque string

definition JWT_SECRET_KEY :: string where
  "JWT_SECRET_KEY = ''your-secret-key''"

definition JWT_ALGORITHM :: string where
  "JWT_ALGORITHM = ''HS256''"

definition JWT_EXPIRATION_MINUTES :: int where
  "JWT_EXPIRATION_MINUTES = 30"

text \<open>\<^verbatim>\<open>timedelta(minutes=m)\<close>, in seconds.\<close>

definition timedelta_minutes :: "int \<Rightarrow> int" where
  "timedelta_minutes m = 60 * m"

text \<open>
  The library calls \<^verbatim>\<open>jwt.encode(payload, key, algorithm=...)\<close> and
  \<^verbatim>\<open>jwt.decode(token, key, algorithms=[...])\<close>. Encoding raises for an algorithm the
  library has no implementation of. Decoding parses the token, checks that the header's
  algorithm is among the allowed ones, verifies the signature, and only then validates the
  \<^verbatim>\<open>exp\<close> claim, when there is one, against the clock.
\<close>

definition hmac_algorithms :: "string list" where
  "hmac_algorithms = [''HS256'', ''HS384'', ''HS512'']"

definition jwt_encode :: "claims \<Rightarrow> string \<Rightarrow> string \<Rightarrow> exn + token" where
  "jwt_encode payload key algorithm =
     (if algorithm \<in> set hmac_algorithms then Inr (JWS algorithm payload key)
      else Inl (NotImplementedError ''Algorithm not supported''))"

fun jwt_decode :: "token \<Rightarrow> string \<Rightarrow> string list \<Rightarrow> int \<Rightarrow> exn + claims" where
  "jwt_decode (Opaque s) key algorithms now = Inl (InvalidTokenError ''Not enough segments'')"
| "jwt_decode (JWS alg payload k) key algorithms now =
     (if alg \<notin> set algorithms then Inl (InvalidTokenError ''The specified alg value is not allowed'')
      else if k \<noteq> key then Inl (InvalidTokenError ''Signature verification failed'')
      else (case exp payload of
              None \<Rightarrow> Inr payload
            | Some e \<Rightarrow> if e \<le> now then Inl (ExpiredSignatureError ''Signature has expired'')
                        else Inr payload))"

text \<open>
  Lines 27 to 40: the handler of the \<^verbatim>\<open>try\<close> prints and re-raises. The encoder is an
  argument of the embedding, so that the function can be followed for an encoder that
  raises; the program calls it with the library's encoder.
\<close>

definition generate_jwt_token_with ::
  "(claims \<Rightarrow> string \<Rightarrow> string \<Rightarrow> exn + token) \<Rightarrow> int \<Rightarrow> claims \<Rightarrow> exn + token" where
  "generate_jwt_token_with encode now data =
     (let to_encode = data;
          expire = now + timedelta_minutes JWT_EXPIRATION_MINUTES;
          to_encode = to_encode\<lparr>exp := Some expire\<rparr>
      in case encode to_encode JWT_SECRET_KEY JWT_ALGORITHM of
           Inr encoded_jwt \<Rightarrow> Inr encoded_jwt
         | Inl e \<Rightarrow> Inl e)"

definition generate_jwt_token :: "int \<Rightarrow> claims \<Rightarrow> exn + token" where
  "generate_jwt_token = generate_jwt_token_with jwt_encode"

subsection \<open>The database\<close>

record User =
  id_User :: int
  username :: string
  password :: string

record Tea =
  id_Tea :: int
  name :: string
  origin :: string

record TeaCreate =
  name :: string
  origin :: string

record TokenResponse =
  access_token :: token
  token_type :: string

text \<open>
  The two tables in rowid order, and the condition of the engine. The statements a request
  sends to the engine are counted from 0. With \<open>outage = None\<close> the engine runs all of
  them; with \<open>outage = Some (n, m)\<close> it runs the first \<open>n\<close> statements of a request and
  raises the driver's error with message \<open>m\<close> at every later one, so that \<open>n = 0\<close> is an
  engine that cannot be reached at all. A request ends at the first statement that raises,
  hence the index of that statement and its message describe every way in which the store
  can fail during one request.
\<close>

record database =
  users :: "User list"
  teas :: "Tea list"
  outage :: "(nat \<times> string) option"

text \<open>
  Statement number \<open>i\<close> of a request: it runs on the tables and yields \<open>r\<close>, or raises.
\<close>

definition session_exec :: "database \<Rightarrow> nat \<Rightarrow> 'a \<Rightarrow> exn + 'a" where
  "session_exec db i r =
     (case outage db of
        None \<Rightarrow> Inr r
      | Some (n, m) \<Rightarrow> if i < n then Inr r else Inl (OperationalError m))"

text \<open>
  The integers SQLite stores and the driver binds as parameters: those of 64 bits, signed.
\<close>

definition sqlite_integer :: "int \<Rightarrow> bool" where
  "sqlite_integer i = (- (2 ^ 63) \<le> i \<and> i < 2 ^ 63)"

text \<open>
  \<^verbatim>\<open>session.get(Tea, tea_id)\<close> as statement number \<open>i\<close>: the row with that primary key,
  if there is one. The driver raises for a key outside the 64 bits.
\<close>

definition session_get :: "database \<Rightarrow> nat \<Rightarrow> int \<Rightarrow> exn + Tea option" where
  "session_get db i tea_id =
     (case session_exec db i () of
        Inl e \<Rightarrow> Inl e
      | Inr u \<Rightarrow>
          if sqlite_integer tea_id then Inr (find (\<lambda>t. id_Tea t = tea_id) (teas db))
          else Inl (OverflowError ''Python int too large to convert to SQLite INTEGER''))"

text \<open>
  The key SQLite gives a row inserted without one into a table whose primary key is a plain
  \<^verbatim>\<open>INTEGER PRIMARY KEY\<close> column (what \<^verbatim>\<open>Field(default=None, primary_key=True)\<close>
  creates, without \<^verbatim>\<open>AUTOINCREMENT\<close>): one more than the largest key in the table, and
  1 in an empty table.
\<close>

definition next_rowid :: "int list \<Rightarrow> int" where
  "next_rowid ids = (if ids = [] then 1 else Max (set ids) + 1)"

subsection \<open>The start-up hook\<close>

text \<open>Lines 72 to 84: the tables exist already in the model; a default account is added
  when the user table has no row.\<close>

definition on_startup :: "database \<Rightarrow> exn + database" where
  "on_startup db =
     (case session_exec db 0 (case users db of [] \<Rightarrow> None | u # _ \<Rightarrow> Some u) of
        Inl e \<Rightarrow> Inl e
      | Inr (Some user) \<Rightarrow> Inr db
      | Inr None \<Rightarrow>
          (case session_exec db 1 (next_rowid (map id_User (users db))) of
             Inl e \<Rightarrow> Inl e
           | Inr rowid \<Rightarrow>
               (let default_user = \<lparr>id_User = rowid, username = ''admin'',
                                     password = ''password''\<rparr>
                in Inr (db\<lparr>users := users db @ [default_user]\<rparr>))))"

subsection \<open>The authentication dependency\<close>

text \<open>
  Lines 88 to 114, the body of the \<^verbatim>\<open>try\<close>: decode the token, read \<^verbatim>\<open>"sub"\<close>,
  select the first user of that name. The argument is the bearer string of the request's
  \<^verbatim>\<open>Authorization\<close> header; a request without one is turned away by
  \<^verbatim>\<open>HTTPBearer\<close> before this function runs and is not part of the model.
\<close>

definition get_current_user_try :: "database \<Rightarrow> int \<Rightarrow> token \<Rightarrow> exn + User" where
  "get_current_user_try db now credentials =
     (case jwt_decode credentials JWT_SECRET_KEY [JWT_ALGORITHM] now of
        Inl e \<Rightarrow> Inl e
      | Inr payload \<Rightarrow>
          (case sub payload of
             None \<Rightarrow> Inl (HTTPException 401 ''Invalid token: no username found'')
           | Some uname \<Rightarrow>
               (case session_exec db 0 (find (\<lambda>u. User.username u = uname) (users db)) of
                  Inl e \<Rightarrow> Inl e
                | Inr None \<Rightarrow> Inl (HTTPException 401 ''User not found'')
                | Inr (Some user) \<Rightarrow> Inr user)))"

text \<open>
  Lines 115 to 134, the \<^verbatim>\<open>except\<close> clauses in their order. The last one catches every
  other exception of the body, the two \<^verbatim>\<open>HTTPException\<close>s raised there included.
\<close>

fun get_current_user_except :: "exn \<Rightarrow> exn" where
  "get_current_user_except (ExpiredSignatureError m) = HTTPException 401 ''Token has expired''"
| "get_current_user_except (InvalidTokenError m) = HTTPException 401 (''Invalid token: '' @ m)"
| "get_current_user_except e = HTTPException 401 (''Authentication error: '' @ str_exn e)"

definition get_current_user :: "database \<Rightarrow> int \<Rightarrow> token \<Rightarrow> exn + User" where
  "get_current_user db now credentials =
     (case get_current_user_try db now credentials of
        Inr user \<Rightarrow> Inr user
      | Inl e \<Rightarrow> Inl (get_current_user_except e))"

subsection \<open>The token endpoint\<close>

text \<open>
  Lines 142 to 164; the \<^verbatim>\<open>except\<close> clause prints and re-raises. The encoder is passed
  on to the token generation; the program runs the route with the library's encoder.
\<close>

definition login_for_access_token_with ::
  "(claims \<Rightarrow> string \<Rightarrow> string \<Rightarrow> exn + token) \<Rightarrow>
   database \<Rightarrow> int \<Rightarrow> string \<Rightarrow> string \<Rightarrow> exn + TokenResponse" where
  "login_for_access_token_with encode db now uname pw =
     (case session_exec db 0 (find (\<lambda>u. User.username u = uname) (users db)) of
        Inl e \<Rightarrow> Inl e
      | Inr None \<Rightarrow> Inl (HTTPException 401 ''Incorrect username or password'')
      | Inr (Some user) \<Rightarrow>
          if User.password user \<noteq> pw
          then Inl (HTTPException 401 ''Incorrect username or password'')
          else (case generate_jwt_token_with encode now
                       \<lparr>sub = Some (User.username user), exp = None\<rparr> of
                  Inl e \<Rightarrow> Inl e
                | Inr token \<Rightarrow> Inr \<lparr>access_token = token, token_type = ''bearer''\<rparr>))"

definition login_for_access_token ::
  "database \<Rightarrow> int \<Rightarrow> string \<Rightarrow> string \<Rightarrow> exn + TokenResponse" where
  "login_for_access_token = login_for_access_token_with jwt_encode"

subsection \<open>The tea routes\<close>

definition get_teas :: "database \<Rightarrow> exn + Tea list" where
  "get_teas db = session_exec db 0 (teas db)"

text \<open>
  The three mutating routes declare \<^verbatim>\<open>Depends(get_current_user)\<close>: the framework runs
  the dependency first and runs the body only when it returned a user. The dependency's
  lookup is statement 0 of the request, the statements of the body follow. No body catches
  an exception of its session: what a statement raises leaves the route, and the table is
  as the last commit left it.
\<close>

text \<open>
  Lines 192 to 199: \<^verbatim>\<open>add\<close> and \<^verbatim>\<open>commit\<close> insert the row under the key SQLite gives
  it (statement 1), \<^verbatim>\<open>refresh\<close> reads it back (statement 2).
\<close>

definition create_tea :: "database \<Rightarrow> int \<Rightarrow> token \<Rightarrow> TeaCreate \<Rightarrow> (exn + Tea) \<times> database" where
  "create_tea db now credentials tea =
     (case get_current_user db now credentials of
        Inl e \<Rightarrow> (Inl e, db)
      | Inr current_user \<Rightarrow>
          (case session_exec db 1 (next_rowid (map id_Tea (teas db))) of
             Inl e \<Rightarrow> (Inl e, db)
           | Inr rowid \<Rightarrow>
               (let db_tea = \<lparr>id_Tea = rowid, name = TeaCreate.name tea,
                              origin = TeaCreate.origin tea\<rparr>;
                    stored = db\<lparr>teas := teas db @ [db_tea]\<rparr>
                in case session_exec db 2 db_tea of
                     Inl e \<Rightarrow> (Inl e, stored)
                   | Inr db_tea \<Rightarrow> (Inr db_tea, stored))))"

text \<open>
  Lines 206 to 217: \<^verbatim>\<open>session.get\<close> (statement 1), then \<^verbatim>\<open>commit\<close> writes the two
  fields of the row with that key (statement 2) and \<^verbatim>\<open>refresh\<close> reads it back
  (statement 3).
\<close>

definition update_tea ::
  "database \<Rightarrow> int \<Rightarrow> token \<Rightarrow> int \<Rightarrow> TeaCreate \<Rightarrow> (exn + Tea) \<times> database" where
  "update_tea db now credentials tea_id tea_update =
     (case get_current_user db now credentials of
        Inl e \<Rightarrow> (Inl e, db)
      | Inr current_user \<Rightarrow>
          (case session_get db 1 tea_id of
             Inl e \<Rightarrow> (Inl e, db)
           | Inr None \<Rightarrow> (Inl (HTTPException 404 ''Tea not found''), db)
           | Inr (Some tea) \<Rightarrow>
               (let set_fields = (\<lambda>t. t\<lparr>Tea.name := TeaCreate.name tea_update,
                                        Tea.origin := TeaCreate.origin tea_update\<rparr>);
                    stored = db\<lparr>teas := map (\<lambda>t. if id_Tea t = tea_id then set_fields t else t)
                                           (teas db)\<rparr>
                in case session_exec db 2 () of
                     Inl e \<Rightarrow> (Inl e, db)
                   | Inr u \<Rightarrow>
                       (case session_exec db 3 (set_fields tea) of
                          Inl e \<Rightarrow> (Inl e, stored)
                        | Inr tea \<Rightarrow> (Inr tea, stored)))))"

text \<open>
  Lines 224 to 232: \<^verbatim>\<open>session.get\<close> (statement 1), then \<^verbatim>\<open>delete\<close> and
  \<^verbatim>\<open>commit\<close> remove the row with that key (statement 2).
\<close>

definition delete_tea ::
  "database \<Rightarrow> int \<Rightarrow> token \<Rightarrow> int \<Rightarrow> (exn + (string \<times> string) list) \<times> database" where
  "delete_tea db now credentials tea_id =
     (case get_current_user db now credentials of
        Inl e \<Rightarrow> (Inl e, db)
      | Inr current_user \<Rightarrow>
          (case session_get db 1 tea_id of
             Inl e \<Rightarrow> (Inl e, db)
           | Inr None \<Rightarrow> (Inl (HTTPException 404 ''Tea not found''), db)
           | Inr (Some tea) \<Rightarrow>
               (case session_exec db 2 () of
                  Inl e \<Rightarrow> (Inl e, db)
                | Inr u \<Rightarrow>
                    (Inr [(''message'', ''Tea with id '' @ str_int tea_id @ '' deleted'')],
                     db\<lparr>teas := filter (\<lambda>t. id_Tea t \<noteq> tea_id) (teas db)\<rparr>))))"

subsection \<open>What the caller receives for an exception\<close>

text \<open>
  The framework answers an \<^verbatim>\<open>HTTPException\<close> with its status code and detail, and any
  other exception that leaves a handler with status 500 and a fixed text.
\<close>

fun response :: "exn \<Rightarrow> int \<times> string" where
  "response (HTTPException status_code detail) = (status_code, detail)"
| "response e = (500, ''Internal Server Error'')"

subsection \<open>Sequences of requests\<close>

text \<open>
  The mutating requests, each with the clock reading and the bearer token it arrives with,
  the database a sequence of them leaves behind, and the ids of the records that the
  creations among them return.
\<close>

datatype request = Post TeaCreate | Put int TeaCreate | Delete int

fun serve :: "database \<Rightarrow> int \<times> token \<times> request \<Rightarrow> database" where
  "serve db (now, credentials, Post tea) = snd (create_tea db now credentials tea)"
| "serve db (now, credentials, Put tea_id tea_update) =
     snd (update_tea db now credentials tea_id tea_update)"
| "serve db (now, credentials, Delete tea_id) = snd (delete_tea db now credentials tea_id)"

fun created_id :: "database \<Rightarrow> int \<times> token \<times> request \<Rightarrow> int list" where
  "created_id db (now, credentials, Post tea) =
     (case fst (create_tea db now credentials tea) of Inr t \<Rightarrow> [id_Tea t] | Inl e \<Rightarrow> [])"
| "created_id db (now, credentials, Put tea_id tea_update) = []"
| "created_id db (now, credentials, Delete tea_id) = []"

fun created_ids :: "database \<Rightarrow> (int \<times> token \<times> request) list \<Rightarrow> int list" where
  "created_ids db [] = []"
| "created_ids db (r # rs) = created_id db r @ created_ids (serve db r) rs"

subsection \<open>Tokens that pass the expiry check\<close>

text \<open>The payload has no \<^verbatim>\<open>exp\<close> claim, or one that lies after the clock reading.\<close>

definition unexpired :: "claims \<Rightarrow> int \<Rightarrow> bool" where
  "unexpired payload now = (case exp payload of None \<Rightarrow> True | Some e \<Rightarrow> now < e)"

subsection \<open>A concrete run\<close>

text \<open>
  The database after start-up on empty tables, a token of the default account issued at
  time 1000, and the databases after creating a tea, after deleting it again, after
  creating another tea then, and after creating a second tea beside the first.
\<close>

definition seeded_db :: database where
  "seeded_db = \<lparr>users = [\<lparr>id_User = 1, username = ''admin'', password = ''password''\<rparr>],
                 teas = [], outage = None\<rparr>"

definition admin_token :: token where
  "admin_token = JWS ''HS256'' \<lparr>sub = Some ''admin'', exp = Some 2800\<rparr> ''your-secret-key''"

definition earl_grey :: TeaCreate where
  "earl_grey = \<lparr>name = ''Earl Grey'', origin = ''England''\<rparr>"

definition assam :: TeaCreate where
  "assam = \<lparr>name = ''Assam'', origin = ''India''\<rparr>"

definition db_after_create :: database where
  "db_after_create = snd (create_tea seeded_db 1000 admin_token earl_grey)"

definition db_after_delete :: database where
  "db_after_delete = snd (delete_tea db_after_create 1001 admin_token 1)"

definition db_after_recreate :: database where
  "db_after_recreate = snd (create_tea db_after_delete 1002 admin_token assam)"

definition db_two_teas :: database where
  "db_two_teas = snd (create_tea db_after_create 1001 admin_token assam)"

text \<open>
  The database with one tea while the engine cannot be reached, while it answers the first
  statement of a request only, and while it answers the first two; an encoder that raises.
\<close>

definition locked_db :: database where
  "locked_db = db_after_create\<lparr>outage := Some (0, ''database is locked'')\<rparr>"

definition lost_db :: database where
  "lost_db = db_after_create\<lparr>outage := Some (1, ''database is locked'')\<rparr>"

definition commit_lost_db :: database where
  "commit_lost_db = db_after_create\<lparr>outage := Some (2, ''database is locked'')\<rparr>"

definition broken_encode :: "claims \<Rightarrow> string \<Rightarrow> string \<Rightarrow> exn + token" where
  "broken_encode payload key algorithm = Inl (NotImplementedError ''Algorithm not supported'')"

section \<open>Properties\<close>

subsection \<open>Token issuance\<close>

lemma jwt_encode_HS256:
  "jwt_encode payload key JWT_ALGORITHM = Inr (JWS JWT_ALGORITHM payload key)"
  by (simp add: jwt_encode_def JWT_ALGORITHM_def hmac_algorithms_def)

lemma generate_jwt_token_eq:
  "generate_jwt_token now data =
     Inr (JWS JWT_ALGORITHM (data\<lparr>exp := Some (now + 1800)\<rparr>) JWT_SECRET_KEY)"
  by (simp add: generate_jwt_token_def generate_jwt_token_with_def jwt_encode_HS256
      timedelta_minutes_def JWT_EXPIRATION_MINUTES_def)

text \<open>
  Claim C9. For every subject and every issuance time, the token generated for the data
  \<^verbatim>\<open>{"sub": subject}\<close> is signed with the service's key and algorithm, embeds that
  subject, and embeds as expiry the issuance time plus 1800 seconds, that is 30 minutes.
\<close>

theorem issue_embeds_subject_and_expiry:
  "generate_jwt_token now \<lparr>sub = Some subject, exp = None\<rparr> =
     Inr (JWS JWT_ALGORITHM \<lparr>sub = Some subject, exp = Some (now + 30 * 60)\<rparr> JWT_SECRET_KEY)"
  by (simp add: generate_jwt_token_eq)

subsection \<open>Sessions, lookups and the dependency\<close>

lemma session_exec_up: "outage db = None \<Longrightarrow> session_exec db i r = Inr r"
  by (simp add: session_exec_def)

lemma session_exec_down:
  "outage db = Some (n, m) \<Longrightarrow> n \<le> i \<Longrightarrow> session_exec db i r = Inl (OperationalError m)"
  by (simp add: session_exec_def)

lemma session_exec_before:
  "outage db = Some (n, m) \<Longrightarrow> i < n \<Longrightarrow> session_exec db i r = Inr r"
  by (simp add: session_exec_def)

lemma session_get_up:
  "outage db = None \<Longrightarrow> sqlite_integer tea_id \<Longrightarrow>
   session_get db i tea_id = Inr (find (\<lambda>t. id_Tea t = tea_id) (teas db))"
  by (simp add: session_get_def session_exec_up)

lemma find_unique:
  "distinct (map f xs) \<Longrightarrow> u \<in> set xs \<Longrightarrow> find (\<lambda>x. f x = f u) xs = Some u"
  by (induction xs) (auto simp: image_iff)

lemma find_absent: "tea_id \<notin> id_Tea ` set ts \<Longrightarrow> find (\<lambda>t. id_Tea t = tea_id) ts = None"
  by (auto simp: find_None_iff)

lemma find_present:
  "tea_id \<in> id_Tea ` set ts \<Longrightarrow> \<exists>tea. find (\<lambda>t. id_Tea t = tea_id) ts = Some tea \<and> id_Tea tea = tea_id"
  by (cases "find (\<lambda>t. id_Tea t = tea_id) ts") (auto simp: find_None_iff find_Some_iff)

lemma find_SomeD: "find P xs = Some x \<Longrightarrow> x \<in> set xs \<and> P x"
  by (auto simp: find_Some_iff)

lemma get_current_user_valid:
  assumes "outage db = None"
    and "find (\<lambda>u. User.username u = uname) (users db) = Some user"
    and "exp payload = None \<or> (\<exists>e. exp payload = Some e \<and> now < e)"
    and "sub payload = Some uname"
  shows "get_current_user db now (JWS JWT_ALGORITHM payload JWT_SECRET_KEY) = Inr user"
  using assms
  by (auto simp: get_current_user_def get_current_user_try_def session_exec_up)

text \<open>
  What the three guarded routes do once the dependency has returned a user, while the engine
  runs every statement.
\<close>

lemma create_tea_authenticated:
  assumes "get_current_user db now credentials = Inr user" and "outage db = None"
  shows "create_tea db now credentials tea =
     (Inr \<lparr>id_Tea = next_rowid (map id_Tea (teas db)), name = TeaCreate.name tea,
            origin = TeaCreate.origin tea\<rparr>,
      db\<lparr>teas := teas db @ [\<lparr>id_Tea = next_rowid (map id_Tea (teas db)),
                               name = TeaCreate.name tea, origin = TeaCreate.origin tea\<rparr>]\<rparr>)"
  using assms by (simp add: create_tea_def session_exec_up Let_def)

lemma update_tea_authenticated:
  assumes "get_current_user db now credentials = Inr user" and "outage db = None"
    and "sqlite_integer tea_id"
  shows "update_tea db now credentials tea_id tea_update =
     (case find (\<lambda>t. id_Tea t = tea_id) (teas db) of
        None \<Rightarrow> (Inl (HTTPException 404 ''Tea not found''), db)
      | Some tea \<Rightarrow>
          (Inr (tea\<lparr>Tea.name := TeaCreate.name tea_update,
                    Tea.origin := TeaCreate.origin tea_update\<rparr>),
           db\<lparr>teas := map (\<lambda>t. if id_Tea t = tea_id
                                then t\<lparr>Tea.name := TeaCreate.name tea_update,
                                       Tea.origin := TeaCreate.origin tea_update\<rparr>
                                else t) (teas db)\<rparr>))"
  using assms
  by (simp add: update_tea_def session_get_up session_exec_up Let_def split: option.splits)

lemma delete_tea_authenticated:
  assumes "get_current_user db now credentials = Inr user" and "outage db = None"
    and "sqlite_integer tea_id"
  shows "delete_tea db now credentials tea_id =
     (case find (\<lambda>t. id_Tea t = tea_id) (teas db) of
        None \<Rightarrow> (Inl (HTTPException 404 ''Tea not found''), db)
      | Some tea \<Rightarrow>
          (Inr [(''message'', ''Tea with id '' @ str_int tea_id @ '' deleted'')],
           db\<lparr>teas := filter (\<lambda>t. id_Tea t \<noteq> tea_id) (teas db)\<rparr>))"
  using assms
  by (simp add: delete_tea_def session_get_up session_exec_up split: option.splits)

lemma sqlite_integer_small [simp]: "sqlite_integer 1" "sqlite_integer 2"
  by (simp_all add: sqlite_integer_def)

subsection \<open>Login followed by authentication\<close>

text \<open>
  Claim C1. While the database answers and user names are unique (the column is declared
  \<^verbatim>\<open>unique=True\<close>), for every user row of the credential store, logging in with its
  name and password returns a bearer token, and authenticating that token at any time before
  30 minutes have passed since the login, in particular at once, returns that very row.
\<close>

theorem login_then_authenticate:
  assumes "outage db = None"
    and "distinct (map User.username (users db))"
    and "u \<in> set (users db)"
    and "now' < now + 30 * 60"
  shows "\<exists>tok. login_for_access_token db now (User.username u) (User.password u) =
             Inr \<lparr>access_token = tok, token_type = ''bearer''\<rparr>
           \<and> get_current_user db now' tok = Inr u"
proof -
  have f: "find (\<lambda>x. User.username x = User.username u) (users db) = Some u"
    using assms(2,3) by (rule find_unique)
  let ?tok = "JWS JWT_ALGORITHM \<lparr>sub = Some (User.username u), exp = Some (now + 1800)\<rparr> JWT_SECRET_KEY"
  have g: "generate_jwt_token_with jwt_encode now \<lparr>sub = Some (User.username u), exp = None\<rparr> =
      Inr ?tok"
    using generate_jwt_token_eq [of now "\<lparr>sub = Some (User.username u), exp = None\<rparr>"]
    by (simp add: generate_jwt_token_def)
  have "login_for_access_token db now (User.username u) (User.password u) =
          Inr \<lparr>access_token = ?tok, token_type = ''bearer''\<rparr>"
    using assms(1) f
    by (simp add: login_for_access_token_def login_for_access_token_with_def session_exec_up g)
  moreover have "get_current_user db now' ?tok = Inr u"
    using assms(1,4) f by (intro get_current_user_valid) auto
  ultimately show ?thesis by blast
qed

text \<open>Claim C1 at the seeded database: the default account logs in at time 1000 and
  authenticates at once.\<close>

theorem login_then_authenticate_witness:
  "outage seeded_db = None \<and> distinct (map User.username (users seeded_db))
   \<and> \<lparr>id_User = 1, username = ''admin'', password = ''password''\<rparr> \<in> set (users seeded_db)
   \<and> (1000::int) < 1000 + 30 * 60
   \<and> (\<exists>tok. login_for_access_token seeded_db 1000 ''admin'' ''password'' =
              Inr \<lparr>access_token = tok, token_type = ''bearer''\<rparr>
            \<and> get_current_user seeded_db 1000 tok =
              Inr \<lparr>id_User = 1, username = ''admin'', password = ''password''\<rparr>)"
proof -
  have h1: "outage seeded_db = None" by (simp add: seeded_db_def)
  have h2: "distinct (map User.username (users seeded_db))" by (simp add: seeded_db_def)
  have h3: "\<lparr>id_User = 1, username = ''admin'', password = ''password''\<rparr> \<in> set (users seeded_db)"
    by (simp add: seeded_db_def)
  have h4: "(1000::int) < 1000 + 30 * 60" by simp
  show ?thesis using login_then_authenticate [OF h1 h2 h3 h4] h1 h2 h3 by simp
qed

subsection \<open>The concrete run\<close>

text \<open>
  The seeded database is what the start-up hook makes of empty tables, and the token of the
  run is the one the default account's login at time 1000 returns.
\<close>

lemma seeded_db_startup: "on_startup \<lparr>users = [], teas = [], outage = None\<rparr> = Inr seeded_db"
  by (simp add: on_startup_def session_exec_def seeded_db_def next_rowid_def)

lemma admin_token_login:
  "login_for_access_token seeded_db 1000 ''admin'' ''password'' =
     Inr \<lparr>access_token = admin_token, token_type = ''bearer''\<rparr>"
  using generate_jwt_token_eq [of 1000 "\<lparr>sub = Some ''admin'', exp = None\<rparr>"]
  by (simp add: login_for_access_token_def login_for_access_token_with_def session_exec_def
      seeded_db_def generate_jwt_token_def admin_token_def JWT_ALGORITHM_def JWT_SECRET_KEY_def)

lemma admin_auth:
  "now < 2800 \<Longrightarrow> users db = users seeded_db \<Longrightarrow> outage db = None \<Longrightarrow>
   get_current_user db now admin_token =
     Inr \<lparr>id_User = 1, username = ''admin'', password = ''password''\<rparr>"
  by (simp add: get_current_user_def get_current_user_try_def session_exec_def seeded_db_def
      admin_token_def JWT_ALGORITHM_def JWT_SECRET_KEY_def)

lemma seeded_db_up: "outage seeded_db = None"
  by (simp add: seeded_db_def)

lemma admin_auth_seeded:
  "get_current_user seeded_db 1000 admin_token =
     Inr \<lparr>id_User = 1, username = ''admin'', password = ''password''\<rparr>"
  by (simp add: admin_auth seeded_db_def)

lemma db_after_create_eq:
  "db_after_create = seeded_db\<lparr>teas := [\<lparr>id_Tea = 1, name = ''Earl Grey'', origin = ''England''\<rparr>]\<rparr>"
  unfolding db_after_create_def create_tea_authenticated [OF admin_auth_seeded seeded_db_up]
  by (simp add: next_rowid_def earl_grey_def seeded_db_def)

lemma db_after_create_up: "outage db_after_create = None"
  by (simp add: db_after_create_eq seeded_db_def)

lemma admin_auth_after_create:
  "get_current_user db_after_create 1001 admin_token =
     Inr \<lparr>id_User = 1, username = ''admin'', password = ''password''\<rparr>"
  by (simp add: admin_auth db_after_create_eq seeded_db_def)

lemma delete_after_create:
  "delete_tea db_after_create 1001 admin_token 1 =
     (Inr [(''message'', ''Tea with id 1 deleted'')], seeded_db)"
  unfolding delete_tea_authenticated [OF admin_auth_after_create db_after_create_up
      sqlite_integer_small(1)]
  by (simp add: db_after_create_eq seeded_db_def str_int_def str_nat.simps digit_char_def)

lemma db_after_delete_eq: "db_after_delete = seeded_db"
  by (simp add: db_after_delete_def delete_after_create)

lemma create_after_delete:
  "create_tea db_after_delete 1002 admin_token assam =
     (Inr \<lparr>id_Tea = 1, name = ''Assam'', origin = ''India''\<rparr>,
      seeded_db\<lparr>teas := [\<lparr>id_Tea = 1, name = ''Assam'', origin = ''India''\<rparr>]\<rparr>)"
proof -
  have a: "get_current_user seeded_db 1002 admin_token =
       Inr \<lparr>id_User = 1, username = ''admin'', password = ''password''\<rparr>"
    by (simp add: admin_auth seeded_db_def)
  show ?thesis
    unfolding db_after_delete_eq create_tea_authenticated [OF a seeded_db_up]
    by (simp add: next_rowid_def assam_def seeded_db_def)
qed

lemma db_after_recreate_eq:
  "db_after_recreate = seeded_db\<lparr>teas := [\<lparr>id_Tea = 1, name = ''Assam'', origin = ''India''\<rparr>]\<rparr>"
  by (simp add: db_after_recreate_def create_after_delete)

lemma db_two_teas_eq:
  "db_two_teas = seeded_db\<lparr>teas := [\<lparr>id_Tea = 1, name = ''Earl Grey'', origin = ''England''\<rparr>,
                                     \<lparr>id_Tea = 2, name = ''Assam'', origin = ''India''\<rparr>]\<rparr>"
  unfolding db_two_teas_def create_tea_authenticated [OF admin_auth_after_create db_after_create_up]
  by (simp add: db_after_create_eq next_rowid_def assam_def seeded_db_def)

subsection \<open>Creation\<close>

lemma next_rowid_fresh: "next_rowid ids \<notin> set ids"
proof (cases "ids = []")
  case True
  then show ?thesis by simp
next
  case False
  have "Max (set ids) + 1 \<in> set ids \<Longrightarrow> False"
  proof -
    assume "Max (set ids) + 1 \<in> set ids"
    then have "Max (set ids) + 1 \<le> Max (set ids)" by (intro Max_ge) auto
    then show False by simp
  qed
  with False show ?thesis by (auto simp: next_rowid_def)
qed

lemma next_rowid_greater: "i \<in> set ids \<Longrightarrow> i < next_rowid ids"
proof -
  assume i: "i \<in> set ids"
  then have "ids \<noteq> []" by auto
  moreover have "i \<le> Max (set ids)" using i by (intro Max_ge) auto
  ultimately show ?thesis by (simp add: next_rowid_def)
qed

text \<open>
  Claim C2, as amended. After a successful authentication and while the engine runs every
  statement, creation stores one row more: the listing afterwards is the listing before
  followed by the new row, which bears the submitted name and origin and an id larger than
  every id in the table, hence different from the id of every existing row. (Nothing is
  said about ids of deleted rows.)
\<close>

theorem create_assigns_unused_id:
  assumes "get_current_user db now credentials = Inr user" and "outage db = None"
  shows "\<exists>t. create_tea db now credentials tea = (Inr t, db\<lparr>teas := teas db @ [t]\<rparr>)
           \<and> Tea.name t = TeaCreate.name tea \<and> Tea.origin t = TeaCreate.origin tea
           \<and> id_Tea t = next_rowid (map id_Tea (teas db))
           \<and> id_Tea t \<notin> id_Tea ` set (teas db)
           \<and> (\<forall>x \<in> set (teas db). id_Tea x < id_Tea t)
           \<and> get_teas db = Inr (teas db)
           \<and> get_teas (snd (create_tea db now credentials tea)) = Inr (teas db @ [t])"
proof -
  note up = assms(2)
  let ?t = "\<lparr>id_Tea = next_rowid (map id_Tea (teas db)), name = TeaCreate.name tea,
             origin = TeaCreate.origin tea\<rparr>"
  have c: "create_tea db now credentials tea = (Inr ?t, db\<lparr>teas := teas db @ [?t]\<rparr>)"
    using assms by (rule create_tea_authenticated)
  have "\<forall>x \<in> set (teas db). id_Tea x < id_Tea ?t"
    by (simp add: next_rowid_greater)
  moreover have "id_Tea ?t \<notin> id_Tea ` set (teas db)"
    using next_rowid_fresh [of "map id_Tea (teas db)"] by simp
  moreover have "get_teas db = Inr (teas db)"
    using up by (simp add: get_teas_def session_exec_up)
  moreover have "get_teas (snd (create_tea db now credentials tea)) = Inr (teas db @ [?t])"
    using up by (simp add: c get_teas_def session_exec_def)
  ultimately show ?thesis using c by (intro exI [of _ ?t]) simp
qed

text \<open>
  Claim C2 as stated fails: the id of a deleted row is assigned again. In the concrete run
  the first tea gets id 1, is deleted, and the next tea created gets id 1 as well.
\<close>

theorem create_reuses_deleted_id:
  "fst (create_tea seeded_db 1000 admin_token earl_grey) =
     Inr \<lparr>id_Tea = 1, name = ''Earl Grey'', origin = ''England''\<rparr>
   \<and> fst (delete_tea db_after_create 1001 admin_token 1) =
     Inr [(''message'', ''Tea with id 1 deleted'')]
   \<and> fst (create_tea db_after_delete 1002 admin_token assam) =
     Inr \<lparr>id_Tea = 1, name = ''Assam'', origin = ''India''\<rparr>"
proof -
  have "fst (create_tea seeded_db 1000 admin_token earl_grey) =
     Inr \<lparr>id_Tea = 1, name = ''Earl Grey'', origin = ''England''\<rparr>"
    unfolding create_tea_authenticated [OF admin_auth_seeded seeded_db_up]
    by (simp add: next_rowid_def earl_grey_def seeded_db_def)
  then show ?thesis by (simp add: delete_after_create create_after_delete)
qed

text \<open>
  The amended claim C2 in the concrete run: with the tea of id 1 in the table, the next tea
  created gets id 2 and is listed after it.
\<close>

theorem create_assigns_unused_id_witness:
  "get_current_user db_after_create 1001 admin_token =
     Inr \<lparr>id_User = 1, username = ''admin'', password = ''password''\<rparr>
   \<and> outage db_after_create = None
   \<and> teas db_after_create = [\<lparr>id_Tea = 1, name = ''Earl Grey'', origin = ''England''\<rparr>]
   \<and> (\<exists>t. create_tea db_after_create 1001 admin_token assam =
            (Inr t, db_after_create\<lparr>teas := teas db_after_create @ [t]\<rparr>)
          \<and> id_Tea t = 2 \<and> id_Tea (hd (teas db_after_create)) < id_Tea t)"
proof -
  note a = admin_auth_after_create and o = db_after_create_up
  have r: "teas db_after_create = [\<lparr>id_Tea = 1, name = ''Earl Grey'', origin = ''England''\<rparr>]"
    by (simp add: db_after_create_eq)
  have n: "next_rowid (map id_Tea (teas db_after_create)) = 2"
    by (simp add: r next_rowid_def)
  obtain t where c: "create_tea db_after_create 1001 admin_token assam =
            (Inr t, db_after_create\<lparr>teas := teas db_after_create @ [t]\<rparr>)"
    and i: "id_Tea t = next_rowid (map id_Tea (teas db_after_create))"
    and l: "\<forall>x \<in> set (teas db_after_create). id_Tea x < id_Tea t"
    using create_assigns_unused_id [OF a o, of assam] by blast
  from i n have "id_Tea t = 2" by simp
  moreover have "id_Tea (hd (teas db_after_create)) < id_Tea t" using l by (simp add: r)
  ultimately show ?thesis using a o r c by blast
qed

subsection \<open>Expired and malformed tokens\<close>

text \<open>
  Claim C3, as amended. For every token signed with the service's key and algorithm whose
  embedded expiry is at or before the current time, authentication fails with status 401
  and detail \<^verbatim>\<open>Token has expired\<close>, whatever the database holds.
\<close>

theorem expired_token_with_valid_signature:
  assumes "exp payload = Some e" and "e \<le> now"
  shows "get_current_user db now (JWS JWT_ALGORITHM payload JWT_SECRET_KEY) =
           Inl (HTTPException 401 ''Token has expired'')"
  using assms by (simp add: get_current_user_def get_current_user_try_def)

text \<open>The amended claim C3 for the default account's token at the second it expires.\<close>

theorem expired_token_with_valid_signature_witness:
  "exp \<lparr>sub = Some ''admin'', exp = Some 2800\<rparr> = Some 2800 \<and> (2800::int) \<le> 2800
   \<and> get_current_user seeded_db 2800 admin_token = Inl (HTTPException 401 ''Token has expired'')"
proof -
  have h1: "exp \<lparr>sub = Some ''admin'', exp = Some 2800\<rparr> = Some 2800" by simp
  have h2: "(2800::int) \<le> 2800" by simp
  show ?thesis
    using expired_token_with_valid_signature [OF h1 h2, of seeded_db]
    by (simp add: admin_token_def JWT_ALGORITHM_def JWT_SECRET_KEY_def)
qed

text \<open>
  Claim C3 as stated fails: a token whose expiry has passed and whose signature was computed
  with another key is rejected for its signature, not as expired.
\<close>

theorem expired_token_with_foreign_signature:
  "exp \<lparr>sub = Some ''admin'', exp = Some 2800\<rparr> = Some 2800 \<and> (2800::int) \<le> 5000
   \<and> get_current_user seeded_db 5000
        (JWS ''HS256'' \<lparr>sub = Some ''admin'', exp = Some 2800\<rparr> ''another-key'') =
      Inl (HTTPException 401 ''Invalid token: Signature verification failed'')
   \<and> get_current_user seeded_db 5000
        (JWS ''HS256'' \<lparr>sub = Some ''admin'', exp = Some 2800\<rparr> ''another-key'') \<noteq>
      Inl (HTTPException 401 ''Token has expired'')"
  by (simp add: get_current_user_def get_current_user_try_def JWT_ALGORITHM_def
      JWT_SECRET_KEY_def)

lemma jwt_decode_unexpired:
  "unexpired payload now \<Longrightarrow>
   jwt_decode (JWS JWT_ALGORITHM payload JWT_SECRET_KEY) JWT_SECRET_KEY [JWT_ALGORITHM] now =
     Inr payload"
  by (simp add: unexpired_def split: option.splits)

text \<open>
  Claim C4, as amended. A bearer string that is no signed token, a token with another
  algorithm than HS256 and a token signed with another key than the service's all fail with
  status 401 and a detail that starts with \<^verbatim>\<open>Invalid token: \<close>. Of the claims only the
  subject is required: a token signed by the service that has not expired, or that carries
  no expiry at all, fails with status 401 when it has no subject; when it has one, this
  subject is returned to the lookup in the user table, which yields the user of that name,
  or status 401 when there is none.
\<close>

theorem verify_outcomes:
  "(\<forall>s. \<exists>m. get_current_user db now (Opaque s) = Inl (HTTPException 401 (''Invalid token: '' @ m)))
   \<and> (\<forall>alg payload k. alg \<noteq> JWT_ALGORITHM \<or> k \<noteq> JWT_SECRET_KEY \<longrightarrow>
         (\<exists>m. get_current_user db now (JWS alg payload k) =
                 Inl (HTTPException 401 (''Invalid token: '' @ m))))
   \<and> (\<forall>payload. unexpired payload now \<and> sub payload = None \<longrightarrow>
         (\<exists>detail. get_current_user db now (JWS JWT_ALGORITHM payload JWT_SECRET_KEY) =
                      Inl (HTTPException 401 detail)))
   \<and> (\<forall>payload uname user.
         unexpired payload now \<and> sub payload = Some uname \<and> outage db = None
         \<and> find (\<lambda>u. User.username u = uname) (users db) = Some user \<longrightarrow>
           get_current_user db now (JWS JWT_ALGORITHM payload JWT_SECRET_KEY) = Inr user)
   \<and> (\<forall>payload uname.
         unexpired payload now \<and> sub payload = Some uname \<and> outage db = None
         \<and> find (\<lambda>u. User.username u = uname) (users db) = None \<longrightarrow>
           (\<exists>detail. get_current_user db now (JWS JWT_ALGORITHM payload JWT_SECRET_KEY) =
                        Inl (HTTPException 401 detail)))"
proof (intro conjI allI impI)
  fix s
  show "\<exists>m. get_current_user db now (Opaque s) = Inl (HTTPException 401 (''Invalid token: '' @ m))"
    by (simp add: get_current_user_def get_current_user_try_def)
next
  fix alg payload k
  assume "alg \<noteq> JWT_ALGORITHM \<or> k \<noteq> JWT_SECRET_KEY"
  then show "\<exists>m. get_current_user db now (JWS alg payload k) =
                 Inl (HTTPException 401 (''Invalid token: '' @ m))"
    by (auto simp: get_current_user_def get_current_user_try_def)
next
  fix payload
  assume "unexpired payload now \<and> sub payload = None"
  then show "\<exists>detail. get_current_user db now (JWS JWT_ALGORITHM payload JWT_SECRET_KEY) =
           Inl (HTTPException 401 detail)"
    by (simp add: get_current_user_def get_current_user_try_def jwt_decode_unexpired
        del: jwt_decode.simps)
next
  fix payload uname user
  assume "unexpired payload now \<and> sub payload = Some uname \<and> outage db = None
         \<and> find (\<lambda>u. User.username u = uname) (users db) = Some user"
  then show "get_current_user db now (JWS JWT_ALGORITHM payload JWT_SECRET_KEY) = Inr user"
    by (simp add: get_current_user_def get_current_user_try_def jwt_decode_unexpired
        session_exec_up del: jwt_decode.simps)
next
  fix payload uname
  assume "unexpired payload now \<and> sub payload = Some uname \<and> outage db = None
         \<and> find (\<lambda>u. User.username u = uname) (users db) = None"
  then show "\<exists>detail. get_current_user db now (JWS JWT_ALGORITHM payload JWT_SECRET_KEY) =
           Inl (HTTPException 401 detail)"
    by (simp add: get_current_user_def get_current_user_try_def jwt_decode_unexpired
        session_exec_up del: jwt_decode.simps)
qed

text \<open>
  Claim C4 as stated fails: the expiry is a claim of every token the service issues, yet a
  token signed with the service's key that carries a subject and no expiry is not turned
  away as malformed; it authenticates, here a million seconds after the run.
\<close>

theorem token_without_expiry_accepted:
  "exp \<lparr>sub = Some ''admin'', exp = None\<rparr> = None
   \<and> get_current_user seeded_db 1000000
        (JWS JWT_ALGORITHM \<lparr>sub = Some ''admin'', exp = None\<rparr> JWT_SECRET_KEY) =
      Inr \<lparr>id_User = 1, username = ''admin'', password = ''password''\<rparr>"
  by (simp add: get_current_user_def get_current_user_try_def session_exec_def seeded_db_def)

text \<open>The amended claim C4 at the seeded database, once for each kind of token.\<close>

theorem verify_outcomes_witness:
  "(\<exists>m. get_current_user seeded_db 1000 (Opaque ''abc'') =
          Inl (HTTPException 401 (''Invalid token: '' @ m)))
   \<and> ''another-key'' \<noteq> JWT_SECRET_KEY
   \<and> (\<exists>m. get_current_user seeded_db 1000
              (JWS ''HS256'' \<lparr>sub = Some ''admin'', exp = Some 2800\<rparr> ''another-key'') =
          Inl (HTTPException 401 (''Invalid token: '' @ m)))
   \<and> unexpired \<lparr>sub = None, exp = Some 2800\<rparr> 1000
   \<and> (\<exists>detail. get_current_user seeded_db 1000
         (JWS JWT_ALGORITHM \<lparr>sub = None, exp = Some 2800\<rparr> JWT_SECRET_KEY) =
       Inl (HTTPException 401 detail))
   \<and> unexpired \<lparr>sub = Some ''admin'', exp = Some 2800\<rparr> 1000
   \<and> outage seeded_db = None
   \<and> find (\<lambda>u. User.username u = ''admin'') (users seeded_db) =
       Some \<lparr>id_User = 1, username = ''admin'', password = ''password''\<rparr>
   \<and> get_current_user seeded_db 1000 admin_token =
       Inr \<lparr>id_User = 1, username = ''admin'', password = ''password''\<rparr>
   \<and> unexpired \<lparr>sub = Some ''bob'', exp = None\<rparr> 1000
   \<and> find (\<lambda>u. User.username u = ''bob'') (users seeded_db) = None
   \<and> (\<exists>detail. get_current_user seeded_db 1000
         (JWS JWT_ALGORITHM \<lparr>sub = Some ''bob'', exp = None\<rparr> JWT_SECRET_KEY) =
       Inl (HTTPException 401 detail))"
proof -
  note v = verify_outcomes [of seeded_db 1000]
  have k: "''another-key'' \<noteq> JWT_SECRET_KEY" by (simp add: JWT_SECRET_KEY_def)
  have u1: "unexpired \<lparr>sub = None, exp = Some 2800\<rparr> 1000" by (simp add: unexpired_def)
  have u2: "unexpired \<lparr>sub = Some ''admin'', exp = Some 2800\<rparr> 1000" by (simp add: unexpired_def)
  have u3: "unexpired \<lparr>sub = Some ''bob'', exp = None\<rparr> 1000" by (simp add: unexpired_def)
  have o: "outage seeded_db = None" by (simp add: seeded_db_def)
  have f2: "find (\<lambda>u. User.username u = ''admin'') (users seeded_db) =
       Some \<lparr>id_User = 1, username = ''admin'', password = ''password''\<rparr>"
    by (simp add: seeded_db_def)
  have f3: "find (\<lambda>u. User.username u = ''bob'') (users seeded_db) = None"
    by (simp add: seeded_db_def)
  have a: "\<exists>m. get_current_user seeded_db 1000 (Opaque ''abc'') =
          Inl (HTTPException 401 (''Invalid token: '' @ m))"
    using v by blast
  have b: "\<exists>m. get_current_user seeded_db 1000
              (JWS ''HS256'' \<lparr>sub = Some ''admin'', exp = Some 2800\<rparr> ''another-key'') =
          Inl (HTTPException 401 (''Invalid token: '' @ m))"
    using v k by blast
  have c: "\<exists>detail. get_current_user seeded_db 1000
         (JWS JWT_ALGORITHM \<lparr>sub = None, exp = Some 2800\<rparr> JWT_SECRET_KEY) =
       Inl (HTTPException 401 detail)"
    using v u1 by simp
  have "get_current_user seeded_db 1000
         (JWS JWT_ALGORITHM \<lparr>sub = Some ''admin'', exp = Some 2800\<rparr> JWT_SECRET_KEY) =
       Inr \<lparr>id_User = 1, username = ''admin'', password = ''password''\<rparr>"
    using v u2 o f2 by simp
  then have d: "get_current_user seeded_db 1000 admin_token =
       Inr \<lparr>id_User = 1, username = ''admin'', password = ''password''\<rparr>"
    by (simp add: admin_token_def JWT_ALGORITHM_def JWT_SECRET_KEY_def)
  have e: "\<exists>detail. get_current_user seeded_db 1000
         (JWS JWT_ALGORITHM \<lparr>sub = Some ''bob'', exp = None\<rparr> JWT_SECRET_KEY) =
       Inl (HTTPException 401 detail)"
    using v u3 o f3 by simp
  show ?thesis using a b c d e k u1 u2 u3 o f2 f3 by simp
qed

subsection \<open>Update and deletion of an absent id\<close>

text \<open>
  Claim C5, as amended. After a successful authentication and while the engine runs every
  statement, updating an id that fits SQLite's 64 bits and that no row of the tea table
  bears fails with status 404 and returns the database as it was.
\<close>

theorem update_absent_id:
  assumes "get_current_user db now credentials = Inr user" and "outage db = None"
    and "sqlite_integer tea_id"
    and "tea_id \<notin> id_Tea ` set (teas db)"
  shows "update_tea db now credentials tea_id tea_update =
           (Inl (HTTPException 404 ''Tea not found''), db)"
  by (simp add: update_tea_authenticated [OF assms(1,2,3)] find_absent [OF assms(4)])

text \<open>The amended claim C5 in the concrete run: no tea has id 2.\<close>

theorem update_absent_id_witness:
  "get_current_user db_after_create 1001 admin_token =
     Inr \<lparr>id_User = 1, username = ''admin'', password = ''password''\<rparr>
   \<and> outage db_after_create = None
   \<and> sqlite_integer 2
   \<and> 2 \<notin> id_Tea ` set (teas db_after_create)
   \<and> teas db_after_create \<noteq> []
   \<and> update_tea db_after_create 1001 admin_token 2 assam =
       (Inl (HTTPException 404 ''Tea not found''), db_after_create)"
proof -
  note a = admin_auth_after_create and o = db_after_create_up
  have b: "2 \<notin> id_Tea ` set (teas db_after_create)"
    by (simp add: db_after_create_eq)
  have c: "teas db_after_create \<noteq> []" by (simp add: db_after_create_eq)
  have r: "sqlite_integer 2" by simp
  show ?thesis using update_absent_id [OF a o r b, of assam] a o b c r by simp
qed

text \<open>
  Claim C5 as stated fails for an absent id beyond the 64 bits: the driver's error leaves
  the route, and the caller receives status 500 instead of 404. The database is as it was.
\<close>

theorem update_beyond_64_bits:
  "get_current_user db_after_create 1001 admin_token =
     Inr \<lparr>id_User = 1, username = ''admin'', password = ''password''\<rparr>
   \<and> 9223372036854775808 \<notin> id_Tea ` set (teas db_after_create)
   \<and> update_tea db_after_create 1001 admin_token 9223372036854775808 assam =
       (Inl (OverflowError ''Python int too large to convert to SQLite INTEGER''),
        db_after_create)
   \<and> response (OverflowError ''Python int too large to convert to SQLite INTEGER'') =
       (500, ''Internal Server Error'')"
proof -
  have "update_tea db_after_create 1001 admin_token 9223372036854775808 assam =
       (Inl (OverflowError ''Python int too large to convert to SQLite INTEGER''),
        db_after_create)"
    by (simp add: update_tea_def admin_auth_after_create session_get_def
        session_exec_up [OF db_after_create_up] sqlite_integer_def)
  moreover have "9223372036854775808 \<notin> id_Tea ` set (teas db_after_create)"
    by (simp add: db_after_create_eq)
  ultimately show ?thesis using admin_auth_after_create by simp
qed

subsection \<open>Deletion\<close>

text \<open>Updates and deletions never add an id to the tea table, and no request changes the
  user table or the condition of the engine.\<close>

lemma map_set_fields_ids:
  "map id_Tea (map (\<lambda>t. if id_Tea t = i then t\<lparr>Tea.name := n, Tea.origin := og\<rparr> else t) ts) =
     map id_Tea ts"
  by (induction ts) auto

lemma set_fields_ids:
  "id_Tea ` set (map (\<lambda>t. if id_Tea t = i then t\<lparr>Tea.name := n, Tea.origin := og\<rparr> else t) ts) =
     id_Tea ` set ts"
proof -
  let ?f = "\<lambda>t. if id_Tea t = i then t\<lparr>Tea.name := n, Tea.origin := og\<rparr> else t"
  have "id_Tea ` set (map ?f ts) = set (map id_Tea (map ?f ts))"
    by (simp only: set_map)
  also have "\<dots> = id_Tea ` set ts"
    by (simp only: map_set_fields_ids set_map)
  finally show ?thesis .
qed

lemma update_tea_ids:
  "id_Tea ` set (teas (snd (update_tea db now credentials i tea_update))) = id_Tea ` set (teas db)"
proof -
  let ?f = "\<lambda>t. if id_Tea t = i
            then t\<lparr>Tea.name := TeaCreate.name tea_update, Tea.origin := TeaCreate.origin tea_update\<rparr>
            else t"
  have "snd (update_tea db now credentials i tea_update) = db
      \<or> snd (update_tea db now credentials i tea_update) = db\<lparr>teas := map ?f (teas db)\<rparr>"
    by (simp add: update_tea_def Let_def split: sum.splits option.splits)
  then show ?thesis
  proof
    assume "snd (update_tea db now credentials i tea_update) = db"
    then show ?thesis by simp
  next
    assume "snd (update_tea db now credentials i tea_update) = db\<lparr>teas := map ?f (teas db)\<rparr>"
    then have "teas (snd (update_tea db now credentials i tea_update)) = map ?f (teas db)"
      by simp
    then show ?thesis by (simp only: set_fields_ids)
  qed
qed

lemma delete_tea_ids:
  "id_Tea ` set (teas (snd (delete_tea db now credentials i))) \<subseteq> id_Tea ` set (teas db)"
proof -
  have "snd (delete_tea db now credentials i) = db
      \<or> snd (delete_tea db now credentials i) =
          db\<lparr>teas := filter (\<lambda>t. id_Tea t \<noteq> i) (teas db)\<rparr>"
    by (simp add: delete_tea_def split: sum.splits option.splits)
  then show ?thesis
  proof
    assume "snd (delete_tea db now credentials i) = db"
    then show ?thesis by simp
  next
    assume "snd (delete_tea db now credentials i) =
          db\<lparr>teas := filter (\<lambda>t. id_Tea t \<noteq> i) (teas db)\<rparr>"
    then have t: "teas (snd (delete_tea db now credentials i)) =
        filter (\<lambda>t. id_Tea t \<noteq> i) (teas db)"
      by simp
    have "set (filter (\<lambda>t. id_Tea t \<noteq> i) (teas db)) \<subseteq> set (teas db)" by simp
    then have "id_Tea ` set (filter (\<lambda>t. id_Tea t \<noteq> i) (teas db)) \<subseteq> id_Tea ` set (teas db)"
      by (rule image_mono)
    then show ?thesis by (simp only: t)
  qed
qed

lemma update_tea_outage: "outage (snd (update_tea db now credentials i tea_update)) = outage db"
  by (simp add: update_tea_def Let_def split: sum.splits option.splits)

lemma delete_tea_outage: "outage (snd (delete_tea db now credentials i)) = outage db"
  by (simp add: delete_tea_def split: sum.splits option.splits)

lemma create_tea_outage: "outage (snd (create_tea db now credentials tea)) = outage db"
  by (simp add: create_tea_def Let_def split: sum.splits)

lemma serve_outage: "outage (serve db r) = outage db"
proof (cases r)
  case (fields now credentials q)
  then show ?thesis
    by (cases q) (simp_all add: create_tea_outage update_tea_outage delete_tea_outage)
qed

lemma create_tea_ids:
  assumes "outage db = None"
  shows "id_Tea ` set (teas (snd (create_tea db now credentials tea))) \<subseteq>
         id_Tea ` set (teas db) \<union> set (created_id db (now, credentials, Post tea))"
proof (cases "get_current_user db now credentials")
  case (Inl e)
  then show ?thesis by (simp add: create_tea_def)
next
  case (Inr user)
  show ?thesis
    unfolding created_id.simps create_tea_authenticated [OF Inr assms] by simp
qed

lemma serve_absent:
  assumes "outage db = None" and "tea_id \<notin> id_Tea ` set (teas db)"
    and "tea_id \<notin> set (created_id db r)"
  shows "tea_id \<notin> id_Tea ` set (teas (serve db r))"
proof (cases r)
  case (fields now credentials q)
  show ?thesis
  proof (cases q)
    case (Post tea)
    have "teas (serve db r) = teas (snd (create_tea db now credentials tea))"
      by (simp add: fields Post)
    moreover have "tea_id \<notin> set (created_id db (now, credentials, Post tea))"
      using assms(3) by (simp add: fields Post)
    ultimately show ?thesis
      using assms(2) create_tea_ids [OF assms(1), of now credentials tea] by (simp only:) blast
  next
    case (Put i tea_update)
    have "teas (serve db r) = teas (snd (update_tea db now credentials i tea_update))"
      by (simp add: fields Put)
    then show ?thesis using assms(2) by (simp add: update_tea_ids)
  next
    case (Delete i)
    have "teas (serve db r) = teas (snd (delete_tea db now credentials i))"
      by (simp add: fields Delete)
    then show ?thesis using assms(2) delete_tea_ids [of db now credentials i] by (simp only:) blast
  qed
qed

lemma foldl_serve_outage: "outage (foldl serve db rs) = outage db"
  by (induction rs arbitrary: db) (simp_all add: serve_outage)

lemma foldl_serve_absent:
  "outage db = None \<Longrightarrow> tea_id \<notin> id_Tea ` set (teas db) \<Longrightarrow>
   tea_id \<notin> set (created_ids db rs) \<Longrightarrow>
   tea_id \<notin> id_Tea ` set (teas (foldl serve db rs))"
proof (induction rs arbitrary: db)
  case Nil
  then show ?case by simp
next
  case (Cons r rs)
  have "tea_id \<notin> id_Tea ` set (teas (serve db r))"
    using Cons.prems by (intro serve_absent) simp_all
  moreover have "outage (serve db r) = None" using Cons.prems(1) by (simp add: serve_outage)
  moreover have "tea_id \<notin> set (created_ids (serve db r) rs)" using Cons.prems(3) by simp
  ultimately have "tea_id \<notin> id_Tea ` set (teas (foldl serve (serve db r) rs))"
    by (intro Cons.IH)
  then show ?case by simp
qed

text \<open>
  Claim C6, as amended. After a successful authentication and while the engine runs every
  statement, deleting an id that a row of the tea table bears returns the message naming
  that id and leaves a table without the id. Whatever requests follow, as long as no
  creation among them returns a record with that id, an authenticated update or deletion of
  the id fails with status 404 and changes nothing: updates and deletions never bring the
  id back.
\<close>

theorem delete_then_not_found:
  assumes "get_current_user db now credentials = Inr user" and "outage db = None"
    and "sqlite_integer tea_id"
    and "tea_id \<in> id_Tea ` set (teas db)"
  shows "delete_tea db now credentials tea_id =
           (Inr [(''message'', ''Tea with id '' @ str_int tea_id @ '' deleted'')],
            db\<lparr>teas := filter (\<lambda>t. id_Tea t \<noteq> tea_id) (teas db)\<rparr>)
         \<and> tea_id \<notin> id_Tea ` set (teas (snd (delete_tea db now credentials tea_id)))
         \<and> (\<forall>rs now' credentials' user' tea_update.
               tea_id \<notin> set (created_ids (snd (delete_tea db now credentials tea_id)) rs)
               \<and> get_current_user (foldl serve (snd (delete_tea db now credentials tea_id)) rs)
                 now' credentials' = Inr user' \<longrightarrow>
               update_tea (foldl serve (snd (delete_tea db now credentials tea_id)) rs)
                 now' credentials' tea_id tea_update =
                 (Inl (HTTPException 404 ''Tea not found''),
                  foldl serve (snd (delete_tea db now credentials tea_id)) rs)
               \<and> delete_tea (foldl serve (snd (delete_tea db now credentials tea_id)) rs)
                 now' credentials' tea_id =
                 (Inl (HTTPException 404 ''Tea not found''),
                  foldl serve (snd (delete_tea db now credentials tea_id)) rs))"
proof -
  obtain tea where f: "find (\<lambda>t. id_Tea t = tea_id) (teas db) = Some tea"
    using find_present [OF assms(4)] by blast
  have d: "delete_tea db now credentials tea_id =
           (Inr [(''message'', ''Tea with id '' @ str_int tea_id @ '' deleted'')],
            db\<lparr>teas := filter (\<lambda>t. id_Tea t \<noteq> tea_id) (teas db)\<rparr>)"
    by (simp add: delete_tea_authenticated [OF assms(1,2,3)] f)
  have gone: "tea_id \<notin> id_Tea ` set (teas (snd (delete_tea db now credentials tea_id)))"
    by (auto simp: d)
  have up: "outage (snd (delete_tea db now credentials tea_id)) = None"
    using assms(2) by (simp add: delete_tea_outage)
  have later: "update_tea db'' now' credentials' tea_id tea_update =
                 (Inl (HTTPException 404 ''Tea not found''), db'')
               \<and> delete_tea db'' now' credentials' tea_id =
                 (Inl (HTTPException 404 ''Tea not found''), db'')"
    if "db'' = foldl serve (snd (delete_tea db now credentials tea_id)) rs"
      and c: "tea_id \<notin> set (created_ids (snd (delete_tea db now credentials tea_id)) rs)"
      and a: "get_current_user db'' now' credentials' = Inr user'"
    for db'' rs now' credentials' user' tea_update
  proof -
    have "tea_id \<notin> id_Tea ` set (teas db'')"
      unfolding that(1) using up gone c by (rule foldl_serve_absent)
    then have n: "find (\<lambda>t. id_Tea t = tea_id) (teas db'') = None" by (rule find_absent)
    have o: "outage db'' = None" unfolding that(1) using up by (simp add: foldl_serve_outage)
    show ?thesis
      by (simp add: update_tea_authenticated [OF a o assms(3)]
          delete_tea_authenticated [OF a o assms(3)] n)
  qed
  show ?thesis using d gone later by blast
qed

lemma admin_auth_teas:
  "now < 2800 \<Longrightarrow> get_current_user (seeded_db\<lparr>teas := ts\<rparr>) now admin_token =
     Inr \<lparr>id_User = 1, username = ''admin'', password = ''password''\<rparr>"
  by (simp add: admin_auth seeded_db_def)

lemma seeded_teas_up: "outage (seeded_db\<lparr>teas := ts\<rparr>) = None"
  by (simp add: seeded_db_def)

text \<open>
  The amended claim C6 in the concrete run with two teas: the tea with id 1 is deleted; a
  creation (which returns id 3), an update and a deletion of id 1 follow; a further update
  and a further deletion of id 1 fail with status 404.
\<close>

theorem delete_then_not_found_witness:
  "get_current_user db_two_teas 1002 admin_token =
     Inr \<lparr>id_User = 1, username = ''admin'', password = ''password''\<rparr>
   \<and> outage db_two_teas = None
   \<and> sqlite_integer 1
   \<and> 1 \<in> id_Tea ` set (teas db_two_teas)
   \<and> delete_tea db_two_teas 1002 admin_token 1 =
       (Inr [(''message'', ''Tea with id 1 deleted'')],
        seeded_db\<lparr>teas := [\<lparr>id_Tea = 2, name = ''Assam'', origin = ''India''\<rparr>]\<rparr>)
   \<and> created_ids (seeded_db\<lparr>teas := [\<lparr>id_Tea = 2, name = ''Assam'', origin = ''India''\<rparr>]\<rparr>)
        [(1003, admin_token, Post earl_grey), (1004, admin_token, Put 1 assam),
         (1005, admin_token, Delete 1)] = [3]
   \<and> foldl serve (seeded_db\<lparr>teas := [\<lparr>id_Tea = 2, name = ''Assam'', origin = ''India''\<rparr>]\<rparr>)
        [(1003, admin_token, Post earl_grey), (1004, admin_token, Put 1 assam),
         (1005, admin_token, Delete 1)] =
       seeded_db\<lparr>teas := [\<lparr>id_Tea = 2, name = ''Assam'', origin = ''India''\<rparr>,
                             \<lparr>id_Tea = 3, name = ''Earl Grey'', origin = ''England''\<rparr>]\<rparr>
   \<and> update_tea (seeded_db\<lparr>teas := [\<lparr>id_Tea = 2, name = ''Assam'', origin = ''India''\<rparr>,
                             \<lparr>id_Tea = 3, name = ''Earl Grey'', origin = ''England''\<rparr>]\<rparr>)
        1006 admin_token 1 earl_grey =
       (Inl (HTTPException 404 ''Tea not found''),
        seeded_db\<lparr>teas := [\<lparr>id_Tea = 2, name = ''Assam'', origin = ''India''\<rparr>,
                             \<lparr>id_Tea = 3, name = ''Earl Grey'', origin = ''England''\<rparr>]\<rparr>)
   \<and> delete_tea (seeded_db\<lparr>teas := [\<lparr>id_Tea = 2, name = ''Assam'', origin = ''India''\<rparr>,
                             \<lparr>id_Tea = 3, name = ''Earl Grey'', origin = ''England''\<rparr>]\<rparr>)
        1006 admin_token 1 =
       (Inl (HTTPException 404 ''Tea not found''),
        seeded_db\<lparr>teas := [\<lparr>id_Tea = 2, name = ''Assam'', origin = ''India''\<rparr>,
                             \<lparr>id_Tea = 3, name = ''Earl Grey'', origin = ''England''\<rparr>]\<rparr>)"
proof -
  let ?D1 = "seeded_db\<lparr>teas := [\<lparr>id_Tea = 2, name = ''Assam'', origin = ''India''\<rparr>]\<rparr>"
  let ?D2 = "seeded_db\<lparr>teas := [\<lparr>id_Tea = 2, name = ''Assam'', origin = ''India''\<rparr>,
                             \<lparr>id_Tea = 3, name = ''Earl Grey'', origin = ''England''\<rparr>]\<rparr>"
  let ?rs = "[(1003, admin_token, Post earl_grey), (1004, admin_token, Put 1 assam),
         (1005, admin_token, Delete 1)]"
  have a: "get_current_user db_two_teas 1002 admin_token =
     Inr \<lparr>id_User = 1, username = ''admin'', password = ''password''\<rparr>"
    unfolding db_two_teas_eq by (simp add: admin_auth_teas)
  have o: "outage db_two_teas = None" unfolding db_two_teas_eq by (rule seeded_teas_up)
  have r: "sqlite_integer 1" by simp
  have p: "1 \<in> id_Tea ` set (teas db_two_teas)" by (simp add: db_two_teas_eq)
  note t = delete_then_not_found [OF a o r p]
  have d: "delete_tea db_two_teas 1002 admin_token 1 =
       (Inr [(''message'', ''Tea with id 1 deleted'')], ?D1)"
    using t by (simp add: db_two_teas_eq seeded_db_def str_int_def str_nat.simps digit_char_def)
  have c1: "create_tea ?D1 1003 admin_token earl_grey =
      (Inr \<lparr>id_Tea = 3, name = ''Earl Grey'', origin = ''England''\<rparr>, ?D2)"
    unfolding create_tea_authenticated [OF admin_auth_teas seeded_teas_up, of 1003, simplified]
    by (simp add: next_rowid_def earl_grey_def)
  have u2: "update_tea ?D2 1004 admin_token 1 assam =
      (Inl (HTTPException 404 ''Tea not found''), ?D2)"
    unfolding update_tea_authenticated [OF admin_auth_teas seeded_teas_up r, of 1004, simplified]
    by simp
  have d3: "delete_tea ?D2 1005 admin_token 1 =
      (Inl (HTTPException 404 ''Tea not found''), ?D2)"
    unfolding delete_tea_authenticated [OF admin_auth_teas seeded_teas_up r, of 1005, simplified]
    by simp
  have cr: "created_ids ?D1 ?rs = [3]" by (simp add: c1 u2)
  have f: "foldl serve ?D1 ?rs = ?D2" by (simp add: c1 u2 d3)
  have a6: "get_current_user ?D2 1006 admin_token =
     Inr \<lparr>id_User = 1, username = ''admin'', password = ''password''\<rparr>"
    by (simp add: admin_auth_teas)
  have n: "(1::int) \<notin> set (created_ids ?D1 ?rs)" unfolding cr by simp
  from t have "\<forall>rs now' credentials' user' tea_update.
       1 \<notin> set (created_ids (snd (delete_tea db_two_teas 1002 admin_token 1)) rs)
       \<and> get_current_user (foldl serve (snd (delete_tea db_two_teas 1002 admin_token 1)) rs)
         now' credentials' = Inr user' \<longrightarrow>
       update_tea (foldl serve (snd (delete_tea db_two_teas 1002 admin_token 1)) rs)
         now' credentials' 1 tea_update =
         (Inl (HTTPException 404 ''Tea not found''),
          foldl serve (snd (delete_tea db_two_teas 1002 admin_token 1)) rs)
       \<and> delete_tea (foldl serve (snd (delete_tea db_two_teas 1002 admin_token 1)) rs)
         now' credentials' 1 =
         (Inl (HTTPException 404 ''Tea not found''),
          foldl serve (snd (delete_tea db_two_teas 1002 admin_token 1)) rs)"
    by blast
  then have "1 \<notin> set (created_ids ?D1 ?rs)
       \<and> get_current_user (foldl serve ?D1 ?rs) 1006 admin_token =
           Inr \<lparr>id_User = 1, username = ''admin'', password = ''password''\<rparr> \<longrightarrow>
       update_tea (foldl serve ?D1 ?rs) 1006 admin_token 1 earl_grey =
         (Inl (HTTPException 404 ''Tea not found''), foldl serve ?D1 ?rs)
       \<and> delete_tea (foldl serve ?D1 ?rs) 1006 admin_token 1 =
         (Inl (HTTPException 404 ''Tea not found''), foldl serve ?D1 ?rs)"
    unfolding d snd_conv by blast
  then have "update_tea ?D2 1006 admin_token 1 earl_grey =
         (Inl (HTTPException 404 ''Tea not found''), ?D2)
       \<and> delete_tea ?D2 1006 admin_token 1 =
         (Inl (HTTPException 404 ''Tea not found''), ?D2)"
    using n a6 unfolding f by blast
  then show ?thesis using a o r p d cr f by blast
qed

text \<open>
  Claim C6 as stated fails: in the concrete run the tea with id 1 is deleted, the next
  creation returns id 1 again, and the update and the deletion of id 1 that follow succeed.
\<close>

theorem deleted_id_resurrected:
  "fst (delete_tea db_after_create 1001 admin_token 1) =
     Inr [(''message'', ''Tea with id 1 deleted'')]
   \<and> teas db_after_delete = []
   \<and> fst (create_tea db_after_delete 1002 admin_token assam) =
       Inr \<lparr>id_Tea = 1, name = ''Assam'', origin = ''India''\<rparr>
   \<and> fst (update_tea db_after_recreate 1003 admin_token 1 earl_grey) =
       Inr \<lparr>id_Tea = 1, name = ''Earl Grey'', origin = ''England''\<rparr>
   \<and> fst (delete_tea db_after_recreate 1003 admin_token 1) =
       Inr [(''message'', ''Tea with id 1 deleted'')]"
proof -
  have r: "sqlite_integer 1" by simp
  have u: "fst (update_tea db_after_recreate 1003 admin_token 1 earl_grey) =
       Inr \<lparr>id_Tea = 1, name = ''Earl Grey'', origin = ''England''\<rparr>"
    unfolding db_after_recreate_eq
      update_tea_authenticated [OF admin_auth_teas seeded_teas_up r, of 1003, simplified]
    by (simp add: earl_grey_def)
  have d: "fst (delete_tea db_after_recreate 1003 admin_token 1) =
       Inr [(''message'', ''Tea with id 1 deleted'')]"
    unfolding db_after_recreate_eq
      delete_tea_authenticated [OF admin_auth_teas seeded_teas_up r, of 1003, simplified]
    by (simp add: str_int_def str_nat.simps digit_char_def)
  have e: "teas db_after_delete = []" by (simp add: db_after_delete_eq seeded_db_def)
  show ?thesis using u d e by (simp add: delete_after_create create_after_delete)
qed

subsection \<open>Rejected logins\<close>

text \<open>
  Claim C7. While the database answers, a login for which no user row carries both the
  given name and the given password (the name is unknown, or its row has another password,
  compared as plain strings) raises \<^verbatim>\<open>HTTPException\<close> with status 401; the result is
  that exception and no token response.
\<close>

theorem login_rejected:
  assumes "outage db = None"
    and "\<forall>u \<in> set (users db). User.username u = uname \<longrightarrow> User.password u \<noteq> pw"
  shows "login_for_access_token db now uname pw =
           Inl (HTTPException 401 ''Incorrect username or password'')"
proof (cases "find (\<lambda>u. User.username u = uname) (users db)")
  case None
  then show ?thesis using assms(1)
    by (simp add: login_for_access_token_def login_for_access_token_with_def session_exec_up)
next
  case (Some user)
  then have "user \<in> set (users db) \<and> User.username user = uname" by (rule find_SomeD)
  with assms(2) have "User.password user \<noteq> pw" by blast
  with Some show ?thesis using assms(1)
    by (simp add: login_for_access_token_def login_for_access_token_with_def session_exec_up)
qed

text \<open>Claim C7 at the seeded database: a wrong password, and an unknown user name.\<close>

theorem login_rejected_witness:
  "outage seeded_db = None
   \<and> users seeded_db = [\<lparr>id_User = 1, username = ''admin'', password = ''password''\<rparr>]
   \<and> login_for_access_token seeded_db 1000 ''admin'' ''secret'' =
       Inl (HTTPException 401 ''Incorrect username or password'')
   \<and> login_for_access_token seeded_db 1000 ''bob'' ''password'' =
       Inl (HTTPException 401 ''Incorrect username or password'')"
proof -
  have o: "outage seeded_db = None" by (simp add: seeded_db_def)
  have r: "users seeded_db = [\<lparr>id_User = 1, username = ''admin'', password = ''password''\<rparr>]"
    by (simp add: seeded_db_def)
  have h1: "\<forall>u \<in> set (users seeded_db). User.username u = ''admin'' \<longrightarrow> User.password u \<noteq> ''secret''"
    by (simp add: r)
  have h2: "\<forall>u \<in> set (users seeded_db). User.username u = ''bob'' \<longrightarrow> User.password u \<noteq> ''password''"
    by (simp add: r)
  show ?thesis
    using login_rejected [OF o h1, of 1000] login_rejected [OF o h2, of 1000] o r by blast
qed

subsection \<open>Update of an existing tea\<close>

text \<open>
  Claim C10. After a successful authentication and while the engine runs every statement,
  updating an id (of SQLite's 64 bits) that a row of the tea table bears returns a row with
  that id and the submitted name and origin. The user table and the engine are as before,
  the tea table has as many rows in the same order with the same ids, every row with
  another id is as it was, and a row with the given id bears the submitted name and origin.
\<close>

theorem update_changes_only_that_row:
  assumes "get_current_user db now credentials = Inr user" and "outage db = None"
    and "sqlite_integer tea_id"
    and "tea_id \<in> id_Tea ` set (teas db)"
  shows "\<exists>t db'. update_tea db now credentials tea_id tea_update = (Inr t, db')
           \<and> id_Tea t = tea_id
           \<and> Tea.name t = TeaCreate.name tea_update
           \<and> Tea.origin t = TeaCreate.origin tea_update
           \<and> users db' = users db \<and> outage db' = outage db
           \<and> length (teas db') = length (teas db)
           \<and> (\<forall>i < length (teas db).
                 id_Tea (teas db' ! i) = id_Tea (teas db ! i)
                 \<and> (id_Tea (teas db ! i) \<noteq> tea_id \<longrightarrow> teas db' ! i = teas db ! i)
                 \<and> (id_Tea (teas db ! i) = tea_id \<longrightarrow>
                      Tea.name (teas db' ! i) = TeaCreate.name tea_update
                      \<and> Tea.origin (teas db' ! i) = TeaCreate.origin tea_update))"
proof -
  obtain tea where f: "find (\<lambda>t. id_Tea t = tea_id) (teas db) = Some tea"
    and i: "id_Tea tea = tea_id"
    using find_present [OF assms(4)] by blast
  let ?f = "\<lambda>t. if id_Tea t = tea_id
            then t\<lparr>Tea.name := TeaCreate.name tea_update, Tea.origin := TeaCreate.origin tea_update\<rparr>
            else t"
  let ?t = "tea\<lparr>Tea.name := TeaCreate.name tea_update, Tea.origin := TeaCreate.origin tea_update\<rparr>"
  let ?db' = "db\<lparr>teas := map ?f (teas db)\<rparr>"
  have u: "update_tea db now credentials tea_id tea_update = (Inr ?t, ?db')"
    by (simp add: update_tea_authenticated [OF assms(1,2,3)] f)
  have rows: "\<forall>i < length (teas db).
                 id_Tea (teas ?db' ! i) = id_Tea (teas db ! i)
                 \<and> (id_Tea (teas db ! i) \<noteq> tea_id \<longrightarrow> teas ?db' ! i = teas db ! i)
                 \<and> (id_Tea (teas db ! i) = tea_id \<longrightarrow>
                      Tea.name (teas ?db' ! i) = TeaCreate.name tea_update
                      \<and> Tea.origin (teas ?db' ! i) = TeaCreate.origin tea_update)"
    by simp
  have "id_Tea ?t = tea_id \<and> Tea.name ?t = TeaCreate.name tea_update
      \<and> Tea.origin ?t = TeaCreate.origin tea_update
      \<and> users ?db' = users db \<and> outage ?db' = outage db
      \<and> length (teas ?db') = length (teas db)"
    using i by simp
  with u rows show ?thesis by blast
qed

text \<open>
  Claim C10 in the concrete run with two teas: updating id 2 returns the row with id 2 and
  leaves the row with id 1 as it was.
\<close>

theorem update_changes_only_that_row_witness:
  "get_current_user db_two_teas 1002 admin_token =
     Inr \<lparr>id_User = 1, username = ''admin'', password = ''password''\<rparr>
   \<and> outage db_two_teas = None
   \<and> sqlite_integer 2
   \<and> 2 \<in> id_Tea ` set (teas db_two_teas)
   \<and> (0::nat) < length (teas db_two_teas) \<and> id_Tea (teas db_two_teas ! 0) \<noteq> 2
   \<and> (1::nat) < length (teas db_two_teas) \<and> id_Tea (teas db_two_teas ! 1) = 2
   \<and> (\<exists>t db'. update_tea db_two_teas 1002 admin_token 2 earl_grey = (Inr t, db')
          \<and> id_Tea t = 2
          \<and> teas db' ! 0 = \<lparr>id_Tea = 1, name = ''Earl Grey'', origin = ''England''\<rparr>
          \<and> Tea.name (teas db' ! 1) = ''Earl Grey'')"
proof -
  have a: "get_current_user db_two_teas 1002 admin_token =
     Inr \<lparr>id_User = 1, username = ''admin'', password = ''password''\<rparr>"
    by (simp add: admin_auth db_two_teas_eq seeded_db_def)
  have o: "outage db_two_teas = None" by (simp add: db_two_teas_eq seeded_db_def)
  have s: "sqlite_integer 2" by simp
  have p: "2 \<in> id_Tea ` set (teas db_two_teas)" by (simp add: db_two_teas_eq)
  have l0: "(0::nat) < length (teas db_two_teas)" by (simp add: db_two_teas_eq)
  have l1: "(1::nat) < length (teas db_two_teas)" by (simp add: db_two_teas_eq)
  have r0: "teas db_two_teas ! 0 = \<lparr>id_Tea = 1, name = ''Earl Grey'', origin = ''England''\<rparr>"
    by (simp add: db_two_teas_eq)
  have r1: "id_Tea (teas db_two_teas ! 1) = 2" by (simp add: db_two_teas_eq)
  have n0: "id_Tea (teas db_two_teas ! 0) \<noteq> 2" by (simp add: r0)
  have e: "TeaCreate.name earl_grey = ''Earl Grey''" by (simp add: earl_grey_def)
  obtain t db' where u: "update_tea db_two_teas 1002 admin_token 2 earl_grey = (Inr t, db')"
    and i: "id_Tea t = 2"
    and rows: "\<forall>i < length (teas db_two_teas).
                 id_Tea (teas db' ! i) = id_Tea (teas db_two_teas ! i)
                 \<and> (id_Tea (teas db_two_teas ! i) \<noteq> 2 \<longrightarrow> teas db' ! i = teas db_two_teas ! i)
                 \<and> (id_Tea (teas db_two_teas ! i) = 2 \<longrightarrow>
                      Tea.name (teas db' ! i) = TeaCreate.name earl_grey
                      \<and> Tea.origin (teas db' ! i) = TeaCreate.origin earl_grey)"
    using update_changes_only_that_row [OF a o s p, of earl_grey] by blast
  have "teas db' ! 0 = teas db_two_teas ! 0" using rows l0 n0 by blast
  moreover have "Tea.name (teas db' ! 1) = TeaCreate.name earl_grey" using rows l1 r1 by blast
  ultimately show ?thesis using a o s p l0 l1 n0 r1 u i r0 e by auto
qed

subsection \<open>Failures of the store and of signing\<close>

lemma gate_down:
  assumes "outage db = Some (0, m)" and "unexpired payload now" and "sub payload = Some subject"
  shows "get_current_user db now (JWS JWT_ALGORITHM payload JWT_SECRET_KEY) =
           Inl (HTTPException 401 (''Authentication error: '' @ m))"
  using assms
  by (simp add: get_current_user_def get_current_user_try_def jwt_decode_unexpired
      session_exec_def del: jwt_decode.simps)

lemma generate_with_raises:
  "encode (data\<lparr>exp := Some (now + 1800)\<rparr>) JWT_SECRET_KEY JWT_ALGORITHM = Inl e \<Longrightarrow>
   generate_jwt_token_with encode now data = Inl e"
  by (simp add: generate_jwt_token_with_def timedelta_minutes_def JWT_EXPIRATION_MINUTES_def)

lemma response_other:
  "\<forall>status_code detail. e \<noteq> HTTPException status_code detail \<Longrightarrow>
   response e = (500, ''Internal Server Error'')"
  by (cases e) simp_all

text \<open>
  Claim C8, as amended. A failure of the store or of signing during a request leaves the
  route as the exception it is, and the caller receives status 500 with the fixed text
  \<^verbatim>\<open>Internal Server Error\<close>: so for the login and the listing when their statement fails,
  for a login whose encoder raises, and for the three mutating routes when a statement of
  their body fails after the dependency has returned a user (the database is then as the
  last commit left it). The one exception is a failure of the dependency's own lookup: a
  request to a mutating route that carries an unexpired token of the service with a subject
  is then answered with status 401 and the detail \<^verbatim>\<open>Authentication error: \<close> followed by
  the driver's message, and the database is left as it was.
\<close>

theorem outage_outcomes:
  "(\<forall>m. response (OperationalError m) = (500, ''Internal Server Error''))
   \<and> (\<forall>m uname pw. outage db = Some (0, m) \<longrightarrow>
         login_for_access_token db now uname pw = Inl (OperationalError m)
         \<and> get_teas db = Inl (OperationalError m))
   \<and> (\<forall>encode e u.
         outage db = None \<and> distinct (map User.username (users db)) \<and> u \<in> set (users db)
         \<and> encode \<lparr>sub = Some (User.username u), exp = Some (now + 1800)\<rparr>
              JWT_SECRET_KEY JWT_ALGORITHM = Inl e
         \<and> (\<forall>status_code detail. e \<noteq> HTTPException status_code detail) \<longrightarrow>
           login_for_access_token_with encode db now (User.username u) (User.password u) = Inl e
           \<and> response e = (500, ''Internal Server Error''))
   \<and> (\<forall>m user tea tea_id.
         get_current_user db now credentials = Inr user \<and> outage db = Some (1, m) \<longrightarrow>
           create_tea db now credentials tea = (Inl (OperationalError m), db)
           \<and> update_tea db now credentials tea_id tea = (Inl (OperationalError m), db)
           \<and> delete_tea db now credentials tea_id = (Inl (OperationalError m), db))
   \<and> (\<forall>m user tea.
         get_current_user db now credentials = Inr user \<and> outage db = Some (2, m) \<longrightarrow>
           fst (create_tea db now credentials tea) = Inl (OperationalError m))
   \<and> (\<forall>m user tea tea_id.
         get_current_user db now credentials = Inr user \<and> outage db = Some (2, m)
         \<and> sqlite_integer tea_id \<and> tea_id \<in> id_Tea ` set (teas db) \<longrightarrow>
           update_tea db now credentials tea_id tea = (Inl (OperationalError m), db)
           \<and> delete_tea db now credentials tea_id = (Inl (OperationalError m), db))
   \<and> (\<forall>m user tea tea_id.
         get_current_user db now credentials = Inr user \<and> outage db = Some (3, m)
         \<and> sqlite_integer tea_id \<and> tea_id \<in> id_Tea ` set (teas db) \<longrightarrow>
           fst (update_tea db now credentials tea_id tea) = Inl (OperationalError m))
   \<and> (\<forall>m payload subject tea tea_id.
         outage db = Some (0, m) \<and> unexpired payload now \<and> sub payload = Some subject \<longrightarrow>
           get_current_user db now (JWS JWT_ALGORITHM payload JWT_SECRET_KEY) =
             Inl (HTTPException 401 (''Authentication error: '' @ m))
           \<and> create_tea db now (JWS JWT_ALGORITHM payload JWT_SECRET_KEY) tea =
             (Inl (HTTPException 401 (''Authentication error: '' @ m)), db)
           \<and> update_tea db now (JWS JWT_ALGORITHM payload JWT_SECRET_KEY) tea_id tea =
             (Inl (HTTPException 401 (''Authentication error: '' @ m)), db)
           \<and> delete_tea db now (JWS JWT_ALGORITHM payload JWT_SECRET_KEY) tea_id =
             (Inl (HTTPException 401 (''Authentication error: '' @ m)), db)
           \<and> response (HTTPException 401 (''Authentication error: '' @ m)) =
             (401, ''Authentication error: '' @ m))"
proof (intro conjI allI impI)
  fix m
  show "response (OperationalError m) = (500, ''Internal Server Error'')" by simp
next
  fix m uname pw
  assume o: "outage db = Some (0, m)"
  show "login_for_access_token db now uname pw = Inl (OperationalError m)"
    by (simp add: login_for_access_token_def login_for_access_token_with_def session_exec_def o)
  show "get_teas db = Inl (OperationalError m)"
    by (simp add: get_teas_def session_exec_def o)
next
  fix encode :: "claims \<Rightarrow> string \<Rightarrow> string \<Rightarrow> exn + token" and e u
  assume h: "outage db = None \<and> distinct (map User.username (users db)) \<and> u \<in> set (users db)
         \<and> encode \<lparr>sub = Some (User.username u), exp = Some (now + 1800)\<rparr>
              JWT_SECRET_KEY JWT_ALGORITHM = Inl e
         \<and> (\<forall>status_code detail. e \<noteq> HTTPException status_code detail)"
  then have f: "find (\<lambda>x. User.username x = User.username u) (users db) = Some u"
    by (intro find_unique) simp_all
  have g: "generate_jwt_token_with encode now \<lparr>sub = Some (User.username u), exp = None\<rparr> = Inl e"
    using h by (intro generate_with_raises) simp
  show "login_for_access_token_with encode db now (User.username u) (User.password u) = Inl e"
    using h f g by (simp add: login_for_access_token_with_def session_exec_up)
  show "response e = (500, ''Internal Server Error'')"
    using h by (intro response_other) simp
next
  fix m user tea tea_id
  assume h: "get_current_user db now credentials = Inr user \<and> outage db = Some (1, m)"
  show "create_tea db now credentials tea = (Inl (OperationalError m), db)"
    using h by (simp add: create_tea_def session_exec_def)
  show "update_tea db now credentials tea_id tea = (Inl (OperationalError m), db)"
    using h by (simp add: update_tea_def session_get_def session_exec_def)
  show "delete_tea db now credentials tea_id = (Inl (OperationalError m), db)"
    using h by (simp add: delete_tea_def session_get_def session_exec_def)
next
  fix m user tea
  assume h: "get_current_user db now credentials = Inr user \<and> outage db = Some (2, m)"
  show "fst (create_tea db now credentials tea) = Inl (OperationalError m)"
    using h by (simp add: create_tea_def session_exec_def Let_def)
next
  fix m user tea tea_id
  assume h: "get_current_user db now credentials = Inr user \<and> outage db = Some (2, m)
         \<and> sqlite_integer tea_id \<and> tea_id \<in> id_Tea ` set (teas db)"
  then obtain row where f: "find (\<lambda>t. id_Tea t = tea_id) (teas db) = Some row"
    using find_present [of tea_id "teas db"] by blast
  show "update_tea db now credentials tea_id tea = (Inl (OperationalError m), db)"
    using h f by (simp add: update_tea_def session_get_def session_exec_def Let_def)
  show "delete_tea db now credentials tea_id = (Inl (OperationalError m), db)"
    using h f by (simp add: delete_tea_def session_get_def session_exec_def)
next
  fix m user tea tea_id
  assume h: "get_current_user db now credentials = Inr user \<and> outage db = Some (3, m)
         \<and> sqlite_integer tea_id \<and> tea_id \<in> id_Tea ` set (teas db)"
  then obtain row where f: "find (\<lambda>t. id_Tea t = tea_id) (teas db) = Some row"
    using find_present [of tea_id "teas db"] by blast
  show "fst (update_tea db now credentials tea_id tea) = Inl (OperationalError m)"
    using h f by (simp add: update_tea_def session_get_def session_exec_def Let_def)
next
  fix m payload subject tea tea_id
  assume h: "outage db = Some (0, m) \<and> unexpired payload now \<and> sub payload = Some subject"
  then have g: "get_current_user db now (JWS JWT_ALGORITHM payload JWT_SECRET_KEY) =
             Inl (HTTPException 401 (''Authentication error: '' @ m))"
    by (intro gate_down) simp_all
  show "get_current_user db now (JWS JWT_ALGORITHM payload JWT_SECRET_KEY) =
             Inl (HTTPException 401 (''Authentication error: '' @ m))"
    by (rule g)
  show "create_tea db now (JWS JWT_ALGORITHM payload JWT_SECRET_KEY) tea =
             (Inl (HTTPException 401 (''Authentication error: '' @ m)), db)"
    by (simp add: create_tea_def g)
  show "update_tea db now (JWS JWT_ALGORITHM payload JWT_SECRET_KEY) tea_id tea =
             (Inl (HTTPException 401 (''Authentication error: '' @ m)), db)"
    by (simp add: update_tea_def g)
  show "delete_tea db now (JWS JWT_ALGORITHM payload JWT_SECRET_KEY) tea_id =
             (Inl (HTTPException 401 (''Authentication error: '' @ m)), db)"
    by (simp add: delete_tea_def g)
  show "response (HTTPException 401 (''Authentication error: '' @ m)) =
             (401, ''Authentication error: '' @ m)"
    by simp
qed

lemma admin_auth_while_answering:
  "now < 2800 \<Longrightarrow> 0 < n \<Longrightarrow>
   get_current_user (db_after_create\<lparr>outage := Some (n, m)\<rparr>) now admin_token =
     Inr \<lparr>id_User = 1, username = ''admin'', password = ''password''\<rparr>"
  by (simp add: get_current_user_def get_current_user_try_def session_exec_def
      db_after_create_eq seeded_db_def admin_token_def JWT_ALGORITHM_def JWT_SECRET_KEY_def)

lemma admin_token_eq:
  "admin_token = JWS JWT_ALGORITHM \<lparr>sub = Some ''admin'', exp = Some 2800\<rparr> JWT_SECRET_KEY"
  by (simp add: admin_token_def JWT_ALGORITHM_def JWT_SECRET_KEY_def)

text \<open>
  The amended claim C8 in the concrete run: the engine out of reach at the login, the
  listing and a deletion; an encoder that raises at the login; the engine lost after the
  dependency's lookup at a creation, lost at the commit of an update, and lost at the
  refresh of an update.
\<close>

theorem outage_outcomes_witness:
  "outage locked_db = Some (0, ''database is locked'')
   \<and> login_for_access_token locked_db 1000 ''admin'' ''password'' =
       Inl (OperationalError ''database is locked'')
   \<and> get_teas locked_db = Inl (OperationalError ''database is locked'')
   \<and> response (OperationalError ''database is locked'') = (500, ''Internal Server Error'')
   \<and> unexpired \<lparr>sub = Some ''admin'', exp = Some 2800\<rparr> 1000
   \<and> delete_tea locked_db 1000 admin_token 1 =
       (Inl (HTTPException 401 ''Authentication error: database is locked''), locked_db)
   \<and> outage seeded_db = None
   \<and> broken_encode \<lparr>sub = Some ''admin'', exp = Some (1000 + 1800)\<rparr> JWT_SECRET_KEY JWT_ALGORITHM =
       Inl (NotImplementedError ''Algorithm not supported'')
   \<and> login_for_access_token_with broken_encode seeded_db 1000 ''admin'' ''password'' =
       Inl (NotImplementedError ''Algorithm not supported'')
   \<and> response (NotImplementedError ''Algorithm not supported'') = (500, ''Internal Server Error'')
   \<and> get_current_user lost_db 1001 admin_token =
       Inr \<lparr>id_User = 1, username = ''admin'', password = ''password''\<rparr>
   \<and> outage lost_db = Some (1, ''database is locked'')
   \<and> create_tea lost_db 1001 admin_token assam =
       (Inl (OperationalError ''database is locked''), lost_db)
   \<and> get_current_user commit_lost_db 1001 admin_token =
       Inr \<lparr>id_User = 1, username = ''admin'', password = ''password''\<rparr>
   \<and> outage commit_lost_db = Some (2, ''database is locked'')
   \<and> sqlite_integer 1
   \<and> 1 \<in> id_Tea ` set (teas commit_lost_db)
   \<and> update_tea commit_lost_db 1001 admin_token 1 assam =
       (Inl (OperationalError ''database is locked''), commit_lost_db)
   \<and> outage (db_after_create\<lparr>outage := Some (3, ''database is locked'')\<rparr>) =
       Some (3, ''database is locked'')
   \<and> fst (update_tea (db_after_create\<lparr>outage := Some (3, ''database is locked'')\<rparr>)
             1001 admin_token 1 assam) =
       Inl (OperationalError ''database is locked'')"
proof -
  have o0: "outage locked_db = Some (0, ''database is locked'')" by (simp add: locked_db_def)
  have u: "unexpired \<lparr>sub = Some ''admin'', exp = Some 2800\<rparr> 1000" by (simp add: unexpired_def)
  note w0 = outage_outcomes [of locked_db 1000 admin_token]
  note w0_resp = w0 [THEN conjunct1]
  note w0_login = w0 [THEN conjunct2, THEN conjunct1]
  note w0_gate = w0 [THEN conjunct2, THEN conjunct2, THEN conjunct2, THEN conjunct2, THEN conjunct2, THEN conjunct2, THEN conjunct2]
  have l: "login_for_access_token locked_db 1000 ''admin'' ''password'' =
       Inl (OperationalError ''database is locked'')
     \<and> get_teas locked_db = Inl (OperationalError ''database is locked'')"
    using w0_login o0 by blast
  have r: "response (OperationalError ''database is locked'') = (500, ''Internal Server Error'')"
    using w0_resp by blast
  have "delete_tea locked_db 1000 (JWS JWT_ALGORITHM \<lparr>sub = Some ''admin'', exp = Some 2800\<rparr>
          JWT_SECRET_KEY) 1 =
       (Inl (HTTPException 401 (''Authentication error: '' @ ''database is locked'')), locked_db)"
    using w0_gate o0 u by simp
  then have d: "delete_tea locked_db 1000 admin_token 1 =
       (Inl (HTTPException 401 ''Authentication error: database is locked''), locked_db)"
    by (simp add: admin_token_eq)
  have os: "outage seeded_db = None" by (simp add: seeded_db_def)
  have ds: "distinct (map User.username (users seeded_db))" by (simp add: seeded_db_def)
  have us: "\<lparr>id_User = 1, username = ''admin'', password = ''password''\<rparr> \<in> set (users seeded_db)"
    by (simp add: seeded_db_def)
  have b: "broken_encode \<lparr>sub = Some ''admin'', exp = Some (1000 + 1800)\<rparr> JWT_SECRET_KEY
        JWT_ALGORITHM = Inl (NotImplementedError ''Algorithm not supported'')"
    by (simp add: broken_encode_def)
  have ne: "\<forall>status_code detail.
      NotImplementedError ''Algorithm not supported'' \<noteq> HTTPException status_code detail"
    by simp
  note ws = outage_outcomes [of seeded_db 1000 admin_token, THEN conjunct2, THEN conjunct2, THEN conjunct1]
  have "login_for_access_token_with broken_encode seeded_db 1000
           (User.username \<lparr>id_User = 1, username = ''admin'', password = ''password''\<rparr>)
           (User.password \<lparr>id_User = 1, username = ''admin'', password = ''password''\<rparr>) =
         Inl (NotImplementedError ''Algorithm not supported'')
       \<and> response (NotImplementedError ''Algorithm not supported'') =
         (500, ''Internal Server Error'')"
    using ws [rule_format, where encode = broken_encode
        and e = "NotImplementedError ''Algorithm not supported''"
        and u = "\<lparr>id_User = 1, username = ''admin'', password = ''password''\<rparr>"]
      os ds us b ne
    by simp
  then have s: "login_for_access_token_with broken_encode seeded_db 1000 ''admin'' ''password'' =
         Inl (NotImplementedError ''Algorithm not supported'')
       \<and> response (NotImplementedError ''Algorithm not supported'') =
         (500, ''Internal Server Error'')"
    by simp
  have a1: "get_current_user lost_db 1001 admin_token =
       Inr \<lparr>id_User = 1, username = ''admin'', password = ''password''\<rparr>"
    unfolding lost_db_def by (simp add: admin_auth_while_answering)
  have o1: "outage lost_db = Some (1, ''database is locked'')" by (simp add: lost_db_def)
  have c1: "create_tea lost_db 1001 admin_token assam =
       (Inl (OperationalError ''database is locked''), lost_db)"
    using outage_outcomes [of lost_db 1001 admin_token, THEN conjunct2, THEN conjunct2, THEN conjunct2, THEN conjunct1] a1 o1 by blast
  have a2: "get_current_user commit_lost_db 1001 admin_token =
       Inr \<lparr>id_User = 1, username = ''admin'', password = ''password''\<rparr>"
    unfolding commit_lost_db_def by (simp add: admin_auth_while_answering)
  have o2: "outage commit_lost_db = Some (2, ''database is locked'')"
    by (simp add: commit_lost_db_def)
  have i: "sqlite_integer 1" by simp
  have p2: "1 \<in> id_Tea ` set (teas commit_lost_db)"
    by (simp add: commit_lost_db_def db_after_create_eq)
  have c2: "update_tea commit_lost_db 1001 admin_token 1 assam =
       (Inl (OperationalError ''database is locked''), commit_lost_db)"
    using outage_outcomes [of commit_lost_db 1001 admin_token, THEN conjunct2, THEN conjunct2, THEN conjunct2, THEN conjunct2, THEN conjunct2, THEN conjunct1] a2 o2 i p2 by blast
  let ?D3 = "db_after_create\<lparr>outage := Some (3, ''database is locked'')\<rparr>"
  have a3: "get_current_user ?D3 1001 admin_token =
       Inr \<lparr>id_User = 1, username = ''admin'', password = ''password''\<rparr>"
    by (simp add: admin_auth_while_answering)
  have o3: "outage ?D3 = Some (3, ''database is locked'')" by simp
  have p3: "1 \<in> id_Tea ` set (teas ?D3)" by (simp add: db_after_create_eq)
  have c3: "fst (update_tea ?D3 1001 admin_token 1 assam) =
       Inl (OperationalError ''database is locked'')"
    using outage_outcomes [of ?D3 1001 admin_token, THEN conjunct2, THEN conjunct2, THEN conjunct2, THEN conjunct2, THEN conjunct2, THEN conjunct2, THEN conjunct1] a3 o3 i p3 by blast
  show ?thesis using o0 l r u d os b s a1 o1 c1 a2 o2 i p2 c2 o3 c3 by simp
qed

text \<open>
  Claim C8 as stated fails: with the engine out of reach, creating a tea with the default
  account's valid token is answered with status 401, and the detail carries the driver's
  message.
\<close>

theorem outage_reported_as_unauthorized:
  "outage locked_db = Some (0, ''database is locked'')
   \<and> fst (create_tea locked_db 1000 admin_token earl_grey) =
       Inl (HTTPException 401 ''Authentication error: database is locked'')
   \<and> response (HTTPException 401 ''Authentication error: database is locked'') =
       (401, ''Authentication error: database is locked'')"
  by (simp add: create_tea_def get_current_user_def get_current_user_try_def session_exec_def
      locked_db_def admin_token_def JWT_ALGORITHM_def JWT_SECRET_KEY_def)

end
